theory Spec2Isabelle
  imports Complex_Main
begin

section \<open>JavaScript values\<close>

text \<open>
  A JavaScript number is a finite value, one of the two infinities, or NaN. Finite values
  are taken as exact rationals. Rounding to a double is modelled where a result is cut
  to an integer afterwards, in the quotient that gives the number of pages, and is a
  parameter there; elsewhere it is not modelled.
\<close>

datatype jsnum = Fin rat | PosInf | NegInf | NaN

text \<open>
  The values the front end receives: what \<open>JSON.parse\<close> can produce, plus \<open>undefined\<close>
  (a missing property or argument). An object is the list of its own properties in
  insertion order, each name once.
\<close>

datatype jsval =
    JUndefined
  | JNull
  | JBool bool
  | JNum jsnum
  | JStr string
  | JArr "jsval list"
  | JObj "(string \<times> jsval) list"

text \<open>Exceptions that the modelled code can raise or let through.\<close>

datatype js_error =
    NetworkError
  | TypeError string
  | SubscriberError string

text \<open>ToBoolean.\<close>

fun truthy :: "jsval \<Rightarrow> bool" where
  "truthy JUndefined = False"
| "truthy JNull = False"
| "truthy (JBool b) = b"
| "truthy (JNum n) = (n \<noteq> Fin 0 \<and> n \<noteq> NaN)"
| "truthy (JStr s) = (s \<noteq> [])"
| "truthy (JArr xs) = True"
| "truthy (JObj kvs) = True"

section \<open>state.js: the observable store\<close>

text \<open>
  One entry of the market table, as \<open>mapSymbolToCoin\<close> builds it. The source's field \<open>id\<close>
  is \<open>coin_id\<close> here.
\<close>

record coin =
  coin_id :: jsval
  rank :: jsval
  symbol :: jsval
  fullSymbol :: jsval
  name :: jsval
  price :: jsval
  change :: jsval
  vol :: jsval
  mcap :: jsval

text \<open>
  The exported \<open>state\<close> object with the fields state.js declares (the source's \<open>filter\<close>
  is \<open>filter_text\<close> here; the watchlist set is the list of its members in insertion order).
\<close>

record app_state =
  coins :: "coin list"
  filteredCoins :: "coin list"
  totalCoins :: jsval
  watchlist :: "jsval list"
  filter_text :: string
  currentQuery :: string
  theme :: string
  fullHistory :: "jsval list"
  currentSymbol :: jsval
  topCoins :: "coin list"

definition initial_state :: app_state where
  "initial_state =
     \<lparr>coins = [], filteredCoins = [], totalCoins = JNum (Fin 0),
      watchlist = [JNum (Fin 1), JNum (Fin 3)], filter_text = [], currentQuery = [],
      theme = ''light'', fullHistory = [], currentSymbol = JNull, topCoins = []\<rparr>"

text \<open>
  A patch object: each declared field is either present with a value or absent. Patches
  that add undeclared fields are outside this type.
\<close>

record patch =
  p_coins :: "coin list option"
  p_filteredCoins :: "coin list option"
  p_totalCoins :: "jsval option"
  p_watchlist :: "jsval list option"
  p_filter_text :: "string option"
  p_currentQuery :: "string option"
  p_theme :: "string option"
  p_fullHistory :: "jsval list option"
  p_currentSymbol :: "jsval option"
  p_topCoins :: "coin list option"

definition empty_patch :: patch where
  "empty_patch =
     \<lparr>p_coins = None, p_filteredCoins = None, p_totalCoins = None, p_watchlist = None,
      p_filter_text = None, p_currentQuery = None, p_theme = None, p_fullHistory = None,
      p_currentSymbol = None, p_topCoins = None\<rparr>"

text \<open>\<open>Object.assign(state, patch)\<close>: every field present in the patch replaces the state's.\<close>

definition or_else :: "'a option \<Rightarrow> 'a \<Rightarrow> 'a" where
  "or_else opt d = (case opt of None \<Rightarrow> d | Some v \<Rightarrow> v)"

definition object_assign :: "app_state \<Rightarrow> patch \<Rightarrow> app_state" where
  "object_assign s p =
     \<lparr>coins = or_else (p_coins p) (coins s),
      filteredCoins = or_else (p_filteredCoins p) (filteredCoins s),
      totalCoins = or_else (p_totalCoins p) (totalCoins s),
      watchlist = or_else (p_watchlist p) (watchlist s),
      filter_text = or_else (p_filter_text p) (filter_text s),
      currentQuery = or_else (p_currentQuery p) (currentQuery s),
      theme = or_else (p_theme p) (theme s),
      fullHistory = or_else (p_fullHistory p) (fullHistory s),
      currentSymbol = or_else (p_currentSymbol p) (currentSymbol s),
      topCoins = or_else (p_topCoins p) (topCoins s)\<rparr>"

text \<open>
  What a caller can hand to \<open>setState\<close>: \<open>undefined\<close>, \<open>null\<close>, a primitive (with its
  truthiness), a function, or an object.
\<close>

datatype patch_arg =
    PUndefined
  | PNull
  | PPrimitive bool
  | PFunction
  | PObject patch

text \<open>
  A subscriber is called with \<open>(state, patch, prev)\<close> and either returns (\<open>None\<close>) or
  throws (\<open>Some err\<close>). Subscribers are observers: they do not write the store themselves.
  A subscriber is registered under an identity, the function object of the source.
\<close>

type_synonym subscriber = "app_state \<Rightarrow> patch \<Rightarrow> app_state \<Rightarrow> js_error option"

text \<open>
  The module state of state.js: the state object, the listener set in insertion order,
  and two logs: the subscribers called so far (\<open>calls\<close>) and what went to
  \<open>console.error\<close>.
\<close>

record store =
  state :: app_state
  listeners :: "(nat \<times> subscriber) list"
  calls :: "nat list"
  console_errors :: "js_error list"

text \<open>
  \<^verbatim>\<open>
  export function subscribe(fn) {
    if (typeof fn !== "function") return () => {};
    listeners.add(fn);
    return () => listeners.delete(fn);
  }
  \<close>
  \<open>None\<close> stands for an argument that is not a function. Adding to a set keeps one copy.
\<close>

definition subscribe :: "(nat \<times> subscriber) option \<Rightarrow> store \<Rightarrow> store" where
  "subscribe fn st =
     (case fn of
        None \<Rightarrow> st
      | Some (i, f) \<Rightarrow>
          if i \<in> fst ` set (listeners st) then st
          else st\<lparr>listeners := listeners st @ [(i, f)]\<rparr>)"

definition unsubscribe :: "nat \<Rightarrow> store \<Rightarrow> store" where
  "unsubscribe i st = st\<lparr>listeners := filter (\<lambda>l. fst l \<noteq> i) (listeners st)\<rparr>"

text \<open>
  The body of \<open>listeners.forEach\<close>: each listener is called inside its own try/catch; a
  thrown error goes to \<open>console.error\<close> and the loop goes on.
\<close>

fun notify :: "app_state \<Rightarrow> patch \<Rightarrow> app_state \<Rightarrow> (nat \<times> subscriber) list \<Rightarrow> store \<Rightarrow> store" where
  "notify s p prev [] st = st"
| "notify s p prev ((i, fn) # ls) st =
     (let st1 = st\<lparr>calls := calls st @ [i]\<rparr> in
      case fn s p prev of
        None \<Rightarrow> notify s p prev ls st1
      | Some err \<Rightarrow> notify s p prev ls (st1\<lparr>console_errors := console_errors st1 @ [err]\<rparr>))"

text \<open>
  \<^verbatim>\<open>
  export function setState(patch) {
    if (!patch || typeof patch !== "object") return;
    const prev = { ...state };
    Object.assign(state, patch);
    listeners.forEach((fn) => {
      try { fn(state, patch, prev); }
      catch (err) { console.error("state subscriber failed:", err); }
    });
  }
  \<close>
  The result pairs the way the call ends (\<open>Inr ()\<close> for a normal return, \<open>Inl\<close> for an
  exception reaching the caller) with the store afterwards.
\<close>

fun setState :: "patch_arg \<Rightarrow> store \<Rightarrow> (js_error + unit) \<times> store" where
  "setState (PObject p) st =
     (let prev = state st;
          st1 = st\<lparr>state := object_assign (state st) p\<rparr>
      in (Inr (), notify (state st1) p prev (listeners st1) st1))"
| "setState _ st = (Inr (), st)"

section \<open>ui.js: HTML escaping\<close>

text \<open>
  \<open>String.prototype.replace\<close> with a global single-character pattern: every occurrence
  of the character is replaced by the replacement text, left to right.
\<close>

definition replace_all :: "char \<Rightarrow> string \<Rightarrow> string \<Rightarrow> string" where
  "replace_all c r s = concat (map (\<lambda>x. if x = c then r else [x]) s)"

text \<open>
  \<^verbatim>\<open>
  function esc(str) {
      if (typeof str !== "string") return "";
      return str.replace(/&/g, "&amp;").replace(/</g, "&lt;").replace(/>/g, "&gt;")
                .replace(/"/g, "&quot;").replace(/'/g, "&#039;");
  }
  \<close>
  The double quote is \<open>CHR 0x22\<close> and the single quote \<open>CHR 0x27\<close>.
\<close>

fun esc :: "jsval \<Rightarrow> string" where
  "esc (JStr str) =
     replace_all (CHR 0x27) ''&#039;''
       (replace_all (CHR 0x22) ''&quot;''
         (replace_all (CHR ''>'') ''&gt;''
           (replace_all (CHR ''<'') ''&lt;''
             (replace_all (CHR ''&'') ''&amp;'' str))))"
| "esc _ = []"

text \<open>The entity of one character, as a single simultaneous substitution would give it.\<close>

definition html_entity :: "char \<Rightarrow> string" where
  "html_entity c =
     (if c = CHR ''&'' then ''&amp;''
      else if c = CHR ''<'' then ''&lt;''
      else if c = CHR ''>'' then ''&gt;''
      else if c = CHR 0x22 then ''&quot;''
      else if c = CHR 0x27 then ''&#039;''
      else [c])"

section \<open>Property access and operators\<close>

text \<open>Array.isArray.\<close>

fun isArray :: "jsval \<Rightarrow> bool" where
  "isArray (JArr xs) = True"
| "isArray _ = False"

text \<open>
  Reading property \<open>k\<close> of a value that is neither \<open>null\<close> nor \<open>undefined\<close>. An object
  gives its own property or \<open>undefined\<close>; arrays and strings have \<open>length\<close> (the length of
  a string counted in \<open>char\<close>s); nothing else the modelled code reads exists on an array,
  a string, a number or a boolean.
\<close>

fun get_prop :: "jsval \<Rightarrow> string \<Rightarrow> jsval" where
  "get_prop (JObj kvs) k = (case map_of kvs k of None \<Rightarrow> JUndefined | Some v \<Rightarrow> v)"
| "get_prop (JArr xs) k =
     (if k = ''length'' then JNum (Fin (of_nat (length xs))) else JUndefined)"
| "get_prop (JStr s) k =
     (if k = ''length'' then JNum (Fin (of_nat (length s))) else JUndefined)"
| "get_prop _ k = JUndefined"

text \<open>\<open>v?.k\<close>: \<open>undefined\<close> when \<open>v\<close> is \<open>null\<close> or \<open>undefined\<close>.\<close>

fun opt_prop :: "jsval \<Rightarrow> string \<Rightarrow> jsval" where
  "opt_prop JUndefined k = JUndefined"
| "opt_prop JNull k = JUndefined"
| "opt_prop v k = get_prop v k"

text \<open>\<open>v.k\<close>: a TypeError when \<open>v\<close> is \<open>null\<close> or \<open>undefined\<close>.\<close>

fun strict_prop :: "jsval \<Rightarrow> string \<Rightarrow> js_error + jsval" where
  "strict_prop JUndefined k = Inl (TypeError ''Cannot read properties of undefined'')"
| "strict_prop JNull k = Inl (TypeError ''Cannot read properties of null'')"
| "strict_prop v k = Inr (get_prop v k)"

text \<open>\<open>a || b\<close> and \<open>a ?? b\<close>.\<close>

definition js_or :: "jsval \<Rightarrow> jsval \<Rightarrow> jsval" where
  "js_or a b = (if truthy a then a else b)"

fun is_nullish :: "jsval \<Rightarrow> bool" where
  "is_nullish JUndefined = True"
| "is_nullish JNull = True"
| "is_nullish _ = False"

definition nullish_or :: "jsval \<Rightarrow> jsval \<Rightarrow> jsval" where
  "nullish_or a b = (if is_nullish a then b else a)"

text \<open>
  ToNumber. On strings, arrays and objects the conversion goes through the text of the
  value; that part is the parameter \<open>coerce\<close>.
\<close>

fun to_number :: "(jsval \<Rightarrow> jsnum) \<Rightarrow> jsval \<Rightarrow> jsnum" where
  "to_number coerce JUndefined = NaN"
| "to_number coerce JNull = Fin 0"
| "to_number coerce (JBool b) = Fin (if b then 1 else 0)"
| "to_number coerce (JNum n) = n"
| "to_number coerce v = coerce v"

fun is_finite :: "jsnum \<Rightarrow> bool" where
  "is_finite (Fin r) = True"
| "is_finite _ = False"

text \<open>
  ToPrimitive, which ToNumber and ToString apply to an object first, can throw. It calls
  the object's \<open>valueOf\<close> and \<open>toString\<close> when they are functions. No property of a
  parsed value is a function, so an own property named \<open>toString\<close> hides the inherited
  method, \<open>valueOf\<close> (own or inherited) gives no primitive, and the conversion is a
  TypeError. An array is converted by joining the texts of its elements (\<open>null\<close> and
  \<open>undefined\<close> give the empty text), so it cannot be converted when one of its
  elements cannot. Every other value converts.
\<close>

fun unconvertible :: "jsval \<Rightarrow> bool" where
  "unconvertible (JObj kvs) = (''toString'' \<in> fst ` set kvs)"
| "unconvertible (JArr xs) = (\<exists>x \<in> set xs. unconvertible x)"
| "unconvertible _ = False"

definition conversion_error :: js_error where
  "conversion_error = TypeError ''Cannot convert object to primitive value''"

text \<open>\<open>Number(v)\<close> as a call: the exception, or the number \<open>v\<close> converts to.\<close>

definition ToNumber :: "(jsval \<Rightarrow> jsnum) \<Rightarrow> jsval \<Rightarrow> js_error + jsnum" where
  "ToNumber coerce v =
     (if unconvertible v then Inl conversion_error else Inr (to_number coerce v))"

text \<open>
  \<open>String.prototype.trim\<close>, and the upper-case form of an ASCII character: a lower-case
  letter (code 97 to 122) loses the bit of value 32; every other character stays.
\<close>

definition is_space :: "char \<Rightarrow> bool" where
  "is_space c = (c \<in> {CHR '' '', CHR 0x09, CHR 0x0A, CHR 0x0B, CHR 0x0C, CHR 0x0D})"

definition js_trim :: "string \<Rightarrow> string" where
  "js_trim s = rev (dropWhile is_space (rev (dropWhile is_space s)))"

definition upper_char :: "char \<Rightarrow> char" where
  "upper_char c =
     (let n = (of_char c :: nat) in
      if 97 \<le> n \<and> n \<le> 122
      then (case c of Char b0 b1 b2 b3 b4 b5 b6 b7 \<Rightarrow> Char b0 b1 b2 b3 b4 False b6 b7)
      else c)"

definition is_ascii :: "char \<Rightarrow> bool" where
  "is_ascii c = ((of_char c :: nat) < 128)"

text \<open>
  \<open>Array.prototype.sort\<close> with a comparator, as a stable insertion sort;
  \<open>before a b\<close> says that the comparator puts \<open>a\<close> strictly before \<open>b\<close> (its result is
  negative). For a consistent comparator every stable sort returns this list; for an
  inconsistent one ECMAScript leaves the order to the implementation.
\<close>

fun js_insert :: "('a \<Rightarrow> 'a \<Rightarrow> bool) \<Rightarrow> 'a \<Rightarrow> 'a list \<Rightarrow> 'a list" where
  "js_insert before x [] = [x]"
| "js_insert before x (y # ys) =
     (if before y x then y # js_insert before x ys else x # y # ys)"

definition js_sort :: "('a \<Rightarrow> 'a \<Rightarrow> bool) \<Rightarrow> 'a list \<Rightarrow> 'a list" where
  "js_sort before xs = foldr (js_insert before) xs []"

text \<open>\<open>xs.map(f)\<close> with a callback that can throw: the first exception ends the map.\<close>

fun map_result :: "('a \<Rightarrow> 'e + 'b) \<Rightarrow> 'a list \<Rightarrow> 'e + 'b list" where
  "map_result f [] = Inr []"
| "map_result f (x # xs) =
     (case f x of
        Inl e \<Rightarrow> Inl e
      | Inr y \<Rightarrow> (case map_result f xs of Inl e \<Rightarrow> Inl e | Inr ys \<Rightarrow> Inr (y # ys)))"

section \<open>api.js: the gateway\<close>

text \<open>
  The URL of a request, by the endpoint and the parameters the code puts into it (the
  text of the URL and its percent-encoding are not modelled).
\<close>

datatype request =
    SymbolsReq jsnum jsnum "string option"
  | PricesReq jsval "jsval option"
  | TechnicalReq jsval
  | LstmReq jsval jsval
  | SentimentReq jsval jsval jsval
  | OnchainReq jsval
  | SignalReq jsval

text \<open>
  How one \<open>fetch\<close> ends: the promise rejects (no connection, DNS, CORS), or a response
  arrives with its \<open>ok\<close> flag and a body that \<open>res.json()\<close> parses (\<open>Some v\<close>) or fails
  to parse (\<open>None\<close>).
\<close>

datatype http_outcome =
    Rejected
  | Response bool "jsval option"

text \<open>
  The network: what the \<open>n\<close>-th request of the session is answered with, and the log of
  the requests issued so far. An asynchronous function is modelled as running to its end
  without interleaving.
\<close>

record net =
  server :: "nat \<Rightarrow> request \<Rightarrow> http_outcome"
  requests :: "request list"

definition fetch :: "request \<Rightarrow> net \<Rightarrow> http_outcome \<times> net" where
  "fetch url n = (server n (length (requests n)) url, n\<lparr>requests := requests n @ [url]\<rparr>)"

text \<open>
  \<^verbatim>\<open>
  async function getJson(url) {
    const res = await fetch(url);
    if (!res.ok) return null;
    try { return await res.json(); } catch { return null; }
  }
  \<close>
  The \<open>await fetch(url)\<close> stands outside the \<open>try\<close>: a rejection leaves \<open>getJson\<close>.
\<close>

definition getJson :: "request \<Rightarrow> net \<Rightarrow> (js_error + jsval) \<times> net" where
  "getJson url n =
     (case fetch url n of
        (Rejected, n') \<Rightarrow> (Inl NetworkError, n')
      | (Response ok body, n') \<Rightarrow>
          if \<not> ok then (Inr JNull, n')
          else (case body of None \<Rightarrow> (Inr JNull, n') | Some v \<Rightarrow> (Inr v, n')))"

text \<open>
  \<^verbatim>\<open>
  function normalizeSymbolsResponse(payload) {
    const items = Array.isArray(payload) ? payload : payload?.items || [];
    const total = Array.isArray(payload)
      ? items.length
      : payload?.total ?? (items ? items.length : 0);
    return { items, total };
  }
  \<close>
\<close>

definition normalizeSymbolsResponse :: "jsval \<Rightarrow> jsval \<times> jsval" where
  "normalizeSymbolsResponse payload =
     (let items = (if isArray payload then payload
                   else js_or (opt_prop payload ''items'') (JArr []));
          total = (if isArray payload then get_prop items ''length''
                   else nullish_or (opt_prop payload ''total'')
                          (if truthy items then get_prop items ''length'' else JNum (Fin 0)))
      in (items, total))"

text \<open>
  \<^verbatim>\<open>
  function mapSymbolToCoin(raw) {
    const price = raw?.price != null ? Number(raw.price) : null;
    const change = raw?.change != null ? Number(raw.change) : null;
    return {
      id: raw?.id, rank: raw?.rank,
      symbol: raw?.name, fullSymbol: raw?.symbol, name: raw?.name,
      price: Number.isFinite(price) ? price : null,
      change: Number.isFinite(change) ? change : null,
      vol: raw?.vol ?? null, mcap: raw?.mcap ?? null,
    };
  }
  \<close>
  \<open>Number(raw.price)\<close> and \<open>Number(raw.change)\<close> throw on a value that cannot be
  converted.
\<close>

definition finite_or_null :: "(jsval \<Rightarrow> jsnum) \<Rightarrow> jsval \<Rightarrow> js_error + jsval" where
  "finite_or_null coerce v =
     (if is_nullish v then Inr JNull
      else case ToNumber coerce v of
             Inl e \<Rightarrow> Inl e
           | Inr n \<Rightarrow> Inr (if is_finite n then JNum n else JNull))"

definition mapSymbolToCoin :: "(jsval \<Rightarrow> jsnum) \<Rightarrow> jsval \<Rightarrow> js_error + coin" where
  "mapSymbolToCoin coerce raw =
     (case finite_or_null coerce (opt_prop raw ''price'') of
        Inl e \<Rightarrow> Inl e
      | Inr price_v \<Rightarrow>
     (case finite_or_null coerce (opt_prop raw ''change'') of
        Inl e \<Rightarrow> Inl e
      | Inr change_v \<Rightarrow>
          Inr \<lparr>coin_id = opt_prop raw ''id'',
               rank = opt_prop raw ''rank'',
               symbol = opt_prop raw ''name'',
               fullSymbol = opt_prop raw ''symbol'',
               name = opt_prop raw ''name'',
               price = price_v,
               change = change_v,
               vol = nullish_or (opt_prop raw ''vol'') JNull,
               mcap = nullish_or (opt_prop raw ''mcap'') JNull\<rparr>))"

text \<open>
  \<^verbatim>\<open>
  api.fetchSymbolsPage = async function ({ page = 1, pageSize = 50, q = "" } = {}) {
    const params = new URLSearchParams();
    params.set("page", String(page));
    params.set("page_size", String(pageSize));
    if (q && q.trim()) params.set("q", q.trim());
    const payload = await getJson(`${baseUrl}/symbols?${params.toString()}`);
    if (!payload) return { coins: [], total: 0 };
    const { items, total } = normalizeSymbolsResponse(payload);
    return { coins: items.map(mapSymbolToCoin), total };
  };
  \<close>
  \<open>items.map\<close> is a function only when \<open>items\<close> is an array; on any other value the call
  is a TypeError. An exception of \<open>mapSymbolToCoin\<close> ends the map. The result is the pair
  of \<open>coins\<close> and \<open>total\<close>.
\<close>

definition fetchSymbolsPage ::
  "(jsval \<Rightarrow> jsnum) \<Rightarrow> jsnum \<Rightarrow> jsnum \<Rightarrow> string \<Rightarrow> net \<Rightarrow> (js_error + coin list \<times> jsval) \<times> net" where
  "fetchSymbolsPage coerce page pageSize q n =
     (let url = SymbolsReq page pageSize
                  (if q \<noteq> [] \<and> js_trim q \<noteq> [] then Some (js_trim q) else None)
      in case getJson url n of
           (Inl e, n') \<Rightarrow> (Inl e, n')
         | (Inr payload, n') \<Rightarrow>
             if \<not> truthy payload then (Inr ([], JNum (Fin 0)), n')
             else (case normalizeSymbolsResponse payload of
                     (JArr xs, tot) \<Rightarrow>
                       (case map_result (mapSymbolToCoin coerce) xs of
                          Inl e \<Rightarrow> (Inl e, n')
                        | Inr cs \<Rightarrow> (Inr (cs, tot), n'))
                   | (_, tot) \<Rightarrow> (Inl (TypeError ''items.map is not a function''), n')))"

text \<open>
  \<^verbatim>\<open>
  api.fetchPrices = async function (symbol, timeframe = null) {
    if (!symbol) return [];
    let url = `${baseUrl}/prices/${encodeURIComponent(symbol)}`;
    if (timeframe) url += `?timeframe=${encodeURIComponent(timeframe)}`;
    const payload = await getJson(url);
    if (!Array.isArray(payload)) return [];
    return payload.sort((a, b) => (a.date < b.date ? -1 : a.date > b.date ? 1 : 0));
  };
  \<close>
  \<open>encodeURIComponent\<close> converts its argument to a text, which throws on a value that
  cannot be converted, before any request is issued. The comparator reads \<open>a.date\<close> and
  \<open>b.date\<close>, which throws on a \<open>null\<close> element, and compares them, which throws on a
  date that cannot be converted; \<open>sort\<close> calls it on every element of an array of two or
  more (a parsed body holds no \<open>undefined\<close>, which \<open>sort\<close> would move to the end without
  comparing). Which of the two exceptions is raised when an array holds both a \<open>null\<close>
  and such a date depends on the order of the comparisons, which is the
  implementation's; the model raises the one for \<open>null\<close>. The operator \<open><\<close> on two date values that
  can be converted is the parameter \<open>lt\<close>.
\<close>

definition date_before :: "(jsval \<Rightarrow> jsval \<Rightarrow> bool) \<Rightarrow> jsval \<Rightarrow> jsval \<Rightarrow> bool" where
  "date_before lt a b = lt (get_prop a ''date'') (get_prop b ''date'')"

definition sort_by_date :: "(jsval \<Rightarrow> jsval \<Rightarrow> bool) \<Rightarrow> jsval list \<Rightarrow> js_error + jsval list" where
  "sort_by_date lt xs =
     (if 2 \<le> length xs \<and> JNull \<in> set xs
      then Inl (TypeError ''Cannot read properties of null (reading date)'')
      else if 2 \<le> length xs \<and> (\<exists>x \<in> set xs. unconvertible (get_prop x ''date''))
      then Inl conversion_error
      else Inr (js_sort (date_before lt) xs))"

definition fetchPrices ::
  "(jsval \<Rightarrow> jsval \<Rightarrow> bool) \<Rightarrow> jsval \<Rightarrow> jsval \<Rightarrow> net \<Rightarrow> (js_error + jsval list) \<times> net" where
  "fetchPrices lt symb timeframe n =
     (if \<not> truthy symb then (Inr [], n)
      else if unconvertible symb \<or> (truthy timeframe \<and> unconvertible timeframe)
      then (Inl conversion_error, n)
      else case getJson (PricesReq symb (if truthy timeframe then Some timeframe else None)) n of
             (Inl e, n') \<Rightarrow> (Inl e, n')
           | (Inr (JArr xs), n') \<Rightarrow> (sort_by_date lt xs, n')
           | (Inr _, n') \<Rightarrow> (Inr [], n'))"

text \<open>
  \<^verbatim>\<open>
  api.fetchTechnical = async function (symbol) {
    if (!symbol) return null;
    return await getJson(`${technicalMsUrl}/${encodeURIComponent(symbol)}`);
  };
  \<close>
  and in the same way \<open>fetchLstm\<close>, \<open>fetchSentiment\<close>, \<open>fetchOnchain\<close> and \<open>fetchSignal\<close>,
  each with its own URL, into which every argument goes through \<open>encodeURIComponent\<close>.
\<close>

definition fetchTechnical :: "jsval \<Rightarrow> net \<Rightarrow> (js_error + jsval) \<times> net" where
  "fetchTechnical symb n =
     (if \<not> truthy symb then (Inr JNull, n)
      else if unconvertible symb then (Inl conversion_error, n)
      else getJson (TechnicalReq symb) n)"

definition fetchLstm :: "jsval \<Rightarrow> jsval \<Rightarrow> net \<Rightarrow> (js_error + jsval) \<times> net" where
  "fetchLstm symb lookback n =
     (if \<not> truthy symb then (Inr JNull, n)
      else if unconvertible symb \<or> unconvertible lookback then (Inl conversion_error, n)
      else getJson (LstmReq symb lookback) n)"

definition fetchSentiment :: "jsval \<Rightarrow> jsval \<Rightarrow> jsval \<Rightarrow> net \<Rightarrow> (js_error + jsval) \<times> net" where
  "fetchSentiment symb window limit n =
     (if \<not> truthy symb then (Inr JNull, n)
      else if unconvertible symb \<or> unconvertible window \<or> unconvertible limit
      then (Inl conversion_error, n)
      else getJson (SentimentReq symb window limit) n)"

definition fetchOnchain :: "jsval \<Rightarrow> net \<Rightarrow> (js_error + jsval) \<times> net" where
  "fetchOnchain symb n =
     (if \<not> truthy symb then (Inr JNull, n)
      else if unconvertible symb then (Inl conversion_error, n)
      else getJson (OnchainReq symb) n)"

definition fetchSignal :: "jsval \<Rightarrow> net \<Rightarrow> (js_error + jsval) \<times> net" where
  "fetchSignal symb n =
     (if \<not> truthy symb then (Inr JNull, n)
      else if unconvertible symb then (Inl conversion_error, n)
      else getJson (SignalReq symb) n)"

section \<open>Number arithmetic\<close>

text \<open>
  The arithmetic of JavaScript numbers that the modelled code uses, on finite values,
  infinities and NaN, each operation with its exact result. The sign of zero is not
  modelled; dividing a finite value by zero gives the infinity of the dividend's sign.
\<close>

fun js_sign :: "jsnum \<Rightarrow> int" where
  "js_sign (Fin a) = (if a < 0 then - 1 else if a = 0 then 0 else 1)"
| "js_sign PosInf = 1"
| "js_sign NegInf = - 1"
| "js_sign NaN = 0"

fun js_neg :: "jsnum \<Rightarrow> jsnum" where
  "js_neg (Fin a) = Fin (- a)"
| "js_neg PosInf = NegInf"
| "js_neg NegInf = PosInf"
| "js_neg NaN = NaN"

fun js_add :: "jsnum \<Rightarrow> jsnum \<Rightarrow> jsnum" where
  "js_add (Fin a) (Fin b) = Fin (a + b)"
| "js_add NaN _ = NaN"
| "js_add _ NaN = NaN"
| "js_add PosInf NegInf = NaN"
| "js_add NegInf PosInf = NaN"
| "js_add PosInf _ = PosInf"
| "js_add NegInf _ = NegInf"
| "js_add _ PosInf = PosInf"
| "js_add _ NegInf = NegInf"

definition js_sub :: "jsnum \<Rightarrow> jsnum \<Rightarrow> jsnum" where
  "js_sub a b = js_add a (js_neg b)"

fun js_mul :: "jsnum \<Rightarrow> jsnum \<Rightarrow> jsnum" where
  "js_mul NaN _ = NaN"
| "js_mul _ NaN = NaN"
| "js_mul (Fin a) (Fin b) = Fin (a * b)"
| "js_mul a b =
     (if js_sign a = 0 \<or> js_sign b = 0 then NaN
      else if js_sign a = js_sign b then PosInf else NegInf)"

fun js_div :: "jsnum \<Rightarrow> jsnum \<Rightarrow> jsnum" where
  "js_div NaN _ = NaN"
| "js_div _ NaN = NaN"
| "js_div (Fin a) (Fin b) =
     (if b = 0 then (if a = 0 then NaN else if 0 < a then PosInf else NegInf)
      else Fin (a / b))"
| "js_div (Fin a) _ = Fin 0"
| "js_div a (Fin b) = (if (js_sign a < 0) \<noteq> (b < 0) then NegInf else PosInf)"
| "js_div _ _ = NaN"

fun js_ceil :: "jsnum \<Rightarrow> jsnum" where
  "js_ceil (Fin a) = Fin (of_int \<lceil>a\<rceil>)"
| "js_ceil n = n"

text \<open>The comparison \<open>a < b\<close>: false when either side is NaN.\<close>

fun js_lt :: "jsnum \<Rightarrow> jsnum \<Rightarrow> bool" where
  "js_lt NaN _ = False"
| "js_lt _ NaN = False"
| "js_lt (Fin a) (Fin b) = (a < b)"
| "js_lt NegInf NegInf = False"
| "js_lt NegInf _ = True"
| "js_lt _ NegInf = False"
| "js_lt PosInf _ = False"
| "js_lt _ PosInf = True"

definition js_le :: "jsnum \<Rightarrow> jsnum \<Rightarrow> bool" where
  "js_le a b = (a \<noteq> NaN \<and> b \<noteq> NaN \<and> \<not> js_lt b a)"

definition js_gt :: "jsnum \<Rightarrow> jsnum \<Rightarrow> bool" where
  "js_gt a b = js_lt b a"

definition js_ge :: "jsnum \<Rightarrow> jsnum \<Rightarrow> bool" where
  "js_ge a b = js_le b a"

text \<open>\<open>Math.max\<close> and \<open>Math.min\<close> of two numbers: NaN when either is NaN.\<close>

definition js_max :: "jsnum \<Rightarrow> jsnum \<Rightarrow> jsnum" where
  "js_max a b = (if a = NaN \<or> b = NaN then NaN else if js_lt a b then b else a)"

definition js_min :: "jsnum \<Rightarrow> jsnum \<Rightarrow> jsnum" where
  "js_min a b = (if a = NaN \<or> b = NaN then NaN else if js_lt b a then b else a)"

text \<open>\<open>n || d\<close> on numbers: zero and NaN are falsy.\<close>

definition num_or :: "jsnum \<Rightarrow> jsnum \<Rightarrow> jsnum" where
  "num_or n d = (if truthy (JNum n) then n else d)"

section \<open>Builtins taken as parameters\<close>

text \<open>
  The library functions whose result the model does not compute:
  \<^item> \<open>num_of_text\<close>: ToNumber on the strings, arrays and objects that can be converted;
  \<^item> \<open>text_of\<close>: ToString on every value that can be converted, but strings;
  \<^item> \<open>upper_text\<close>: \<open>toUpperCase\<close> on a text with a character outside ASCII;
  \<^item> \<open>to_double\<close>: the double nearest to a rational;
  \<^item> \<open>locale_fixed2\<close>: \<open>n.toLocaleString("en-US", {minimumFractionDigits: 2, maximumFractionDigits: 2})\<close>;
  \<^item> \<open>locale_max2\<close>: \<open>n.toLocaleString("en-US", {maximumFractionDigits: 2})\<close>;
  \<^item> \<open>precision6\<close>: \<open>n.toPrecision(6)\<close>; \<open>fixed2\<close>: \<open>n.toFixed(2)\<close>;
  \<^item> \<open>intl_compact\<close>: the compact USD \<open>Intl.NumberFormat\<close>, \<open>None\<close> when it throws;
  \<^item> \<open>uri_component\<close>: \<open>encodeURIComponent\<close> of a text.
\<close>

record builtins =
  num_of_text :: "jsval \<Rightarrow> jsnum"
  text_of :: "jsval \<Rightarrow> string"
  locale_fixed2 :: "jsnum \<Rightarrow> string"
  locale_max2 :: "jsnum \<Rightarrow> string"
  precision6 :: "jsnum \<Rightarrow> string"
  fixed2 :: "jsnum \<Rightarrow> string"
  intl_compact :: "jsnum \<Rightarrow> string option"
  uri_component :: "string \<Rightarrow> string"
  upper_text :: "string \<Rightarrow> string"
  to_double :: "rat \<Rightarrow> rat"

text \<open>
  \<open>Number(v)\<close>, \<open>isNaN(v)\<close> and \<open>String(v)\<close>, and \<open>`${v}`\<close> in a template literal, which is
  \<open>String(v)\<close>: each throws the TypeError of ToPrimitive on a value that cannot be
  converted. \<open>text_value\<close> is the text of a value that can be.
\<close>

definition Number :: "builtins \<Rightarrow> jsval \<Rightarrow> js_error + jsnum" where
  "Number b v = ToNumber (num_of_text b) v"

definition isNaN :: "builtins \<Rightarrow> jsval \<Rightarrow> js_error + bool" where
  "isNaN b v = (case Number b v of Inl e \<Rightarrow> Inl e | Inr n \<Rightarrow> Inr (n = NaN))"

fun text_value :: "builtins \<Rightarrow> jsval \<Rightarrow> string" where
  "text_value b (JStr s) = s"
| "text_value b v = text_of b v"

definition String :: "builtins \<Rightarrow> jsval \<Rightarrow> js_error + string" where
  "String b v = (if unconvertible v then Inl conversion_error else Inr (text_value b v))"

text \<open>
  \<open>s.toUpperCase()\<close>: computed on ASCII text, the library's result on any other text.
\<close>

definition toUpperCase :: "builtins \<Rightarrow> string \<Rightarrow> string" where
  "toUpperCase b s = (if list_all is_ascii s then map upper_char s else upper_text b s)"

text \<open>
  \<open>a / b\<close> as the code computes it before \<open>Math.ceil\<close>: a finite quotient is rounded to a
  double.
\<close>

definition double_div :: "builtins \<Rightarrow> jsnum \<Rightarrow> jsnum \<Rightarrow> jsnum" where
  "double_div b x y = (case js_div x y of Fin q \<Rightarrow> Fin (to_double b q) | n \<Rightarrow> n)"

section \<open>ui.js: the formatters\<close>

text \<open>The placeholder is the em dash, U+2014, here in UTF-8.\<close>

definition placeholder :: string where
  "placeholder = [CHR 0xE2, CHR 0x80, CHR 0x94]"

text \<open>
  \<^verbatim>\<open>
  function formatPrice(v) {
      if (v == null || isNaN(v)) return "[em dash]";
      const n = Number(v);
      if (n === 0) return "$0.00";
      if (n >= 1) return "$" + n.toLocaleString("en-US", {minimumFractionDigits: 2, maximumFractionDigits: 2});
      return "$" + n.toPrecision(6);
  }
  \<close>
  \<open>v == null\<close> is decided first; \<open>isNaN(v)\<close> converts \<open>v\<close> and can throw.
\<close>

definition formatPrice :: "builtins \<Rightarrow> jsval \<Rightarrow> js_error + string" where
  "formatPrice b v =
     (if is_nullish v then Inr placeholder
      else case isNaN b v of
        Inl e \<Rightarrow> Inl e
      | Inr nan \<Rightarrow>
          if nan then Inr placeholder
          else (case Number b v of
                  Inl e \<Rightarrow> Inl e
                | Inr n \<Rightarrow>
                    Inr (if n = Fin 0 then ''$0.00''
                         else if js_ge n (Fin 1) then ''$'' @ locale_fixed2 b n
                         else ''$'' @ precision6 b n)))"

text \<open>
  \<^verbatim>\<open>
  function formatChange(ch) {
      if (ch == null || isNaN(ch)) return {text: "[em dash]", cls: ""};
      const n = Number(ch);
      const text = (n >= 0 ? "+" : "") + n.toFixed(2) + "%";
      const cls = n > 0 ? "text-emerald-500 bg-emerald-500/10"
                : n < 0 ? "text-red-500 bg-red-500/10" : "text-gray-500 bg-gray-500/10";
      return {text, cls};
  }
  \<close>
  The result is the pair of \<open>text\<close> and \<open>cls\<close>.
\<close>

definition cls_up :: string where "cls_up = ''text-emerald-500 bg-emerald-500/10''"
definition cls_down :: string where "cls_down = ''text-red-500 bg-red-500/10''"
definition cls_flat :: string where "cls_flat = ''text-gray-500 bg-gray-500/10''"

definition formatChange :: "builtins \<Rightarrow> jsval \<Rightarrow> js_error + string \<times> string" where
  "formatChange b ch =
     (if is_nullish ch then Inr (placeholder, [])
      else case isNaN b ch of
        Inl e \<Rightarrow> Inl e
      | Inr nan \<Rightarrow>
          if nan then Inr (placeholder, [])
          else (case Number b ch of
                  Inl e \<Rightarrow> Inl e
                | Inr n \<Rightarrow>
                    Inr ((if js_ge n (Fin 0) then ''+'' else []) @ fixed2 b n @ ''%'',
                         if js_gt n (Fin 0) then cls_up
                         else if js_lt n (Fin 0) then cls_down else cls_flat)))"









section \<open>The page and the runtime caches\<close>

text \<open>
  What a listener does when it fires: open a coin's detail page, or one of the three
  pagination handlers; the handler of the Next button closes over the \<open>totalPages\<close> of
  the render that installed it.
\<close>

datatype handler =
    OpenCoin string
  | ChangeRows
  | PrevPage
  | NextPage jsnum

text \<open>
  One summary card, one table row and the pagination bar, by the values the template
  literals interpolate. The sparkline is the list of its path coordinates; \<open>None\<close> stands
  for a path whose coordinates are not finite numbers. Every element that the render
  attaches a listener to carries its listener list.
\<close>

record card =
  card_symbol :: string
  card_initial :: string
  card_name :: string
  card_ticker :: string
  card_change_cls :: string
  card_change_text :: string
  card_price :: string
  card_path :: "(rat \<times> rat) list option"
  card_stroke :: string
  card_listeners :: "handler list"

record row =
  row_index :: jsnum
  row_initial :: string
  row_name :: string
  row_ticker :: string
  row_price :: string
  row_change_cls :: string
  row_change_text :: string
  row_vol :: string
  row_symbol :: string
  row_listeners :: "handler list"

record pag_bar =
  rows_per_page :: jsnum
  showing_from :: jsnum
  showing_to :: jsnum
  showing_total :: jsnum
  page_shown :: jsnum
  pages_shown :: jsnum
  prev_disabled :: bool
  next_disabled :: bool
  select_listeners :: "handler list"
  prev_listeners :: "handler list"
  next_listeners :: "handler list"

text \<open>
  The dashboard document: which of the fixed elements exist (\<open>#market-table-body\<close>,
  \<open>#top-cards-container\<close>, \<open>#no-results\<close>, the panel that hosts the pagination bar,
  \<open>#ticker\<close>), and the content the render writes. \<open>pag_container\<close> is \<open>None\<close> while the document has no
  \<open>#pagination-container\<close>, \<open>Some None\<close> when it is empty.
\<close>

record dom =
  has_tbody :: bool
  has_top_cards :: bool
  has_no_results :: bool
  has_panel :: bool
  has_ticker :: bool
  top_cards :: "card list"
  table_rows :: "row list"
  no_results_shown :: bool
  pag_container :: "pag_bar option option"

record pagination_state =
  pageSize :: jsnum
  currentPage :: jsnum

text \<open>
  The application: the store of state.js, the network, the caches \<open>internal.pagination\<close>
  and \<open>internal.pricesByRange\<close> (\<open>None\<close> for the initial \<open>null\<close>), the series the detail
  view shows with its range label, and the dashboard document.
\<close>

record world =
  app_store :: store
  network :: net
  internal_pagination :: "pagination_state option"
  internal_pricesByRange :: "(string \<Rightarrow> jsval list option) option"
  detail_shown :: "(string \<times> jsval list) option"
  page_dom :: dom

section \<open>app.js: loading a page of the table\<close>

text \<open>
  \<^verbatim>\<open>
  function renderTicker(coinsPage, { onlyFirstPage = true, page = 1 } = {}) {
    const tick = document.getElementById("ticker");
    if (!tick) return;
    if (onlyFirstPage && page !== 1) return;
    if (!coinsPage.length) { tick.innerHTML = ""; return; }
    let html = "";
    coinsPage.slice(0, 20).forEach((c) => {
      const change = c.change ?? 0;
      const cls = change >= 0 ? "text-emerald-400" : "text-red-400";
      const pct =
        c.change != null && !Number.isNaN(change) ? Number(change).toFixed(2) : "0.00";
      html += `<span class="mx-8 font-mono">${c.symbol} <span class="${cls}">${pct}%</span></span>`;
    });
    tick.innerHTML = html + html;
  }
  \<close>
  The content of the ticker is not modelled, only how the function ends: the comparison
  converts the change of an entry and the interpolation its symbol, and each throws on a
  value that cannot be converted.
\<close>

definition renderTicker :: "dom \<Rightarrow> coin list \<Rightarrow> jsnum \<Rightarrow> js_error + unit" where
  "renderTicker d coinsPage page =
     (if \<not> has_ticker d \<or> page \<noteq> Fin 1 \<or> coinsPage = [] then Inr ()
      else if \<exists>c \<in> set (take 20 coinsPage).
                unconvertible (nullish_or (change c) (JNum (Fin 0))) \<or> unconvertible (symbol c)
           then Inl conversion_error
      else Inr ())"

text \<open>
  \<^verbatim>\<open>
  app.loadCoinsPage = async function (page, pageSize) {
    const q = app.state.currentQuery || "";
    try {
      const { coins, total } = await app.api.fetchSymbolsPage({
        page: page || 1, pageSize: pageSize || 50, q });
      setState({ coins, filteredCoins: coins, totalCoins: total });
      // Cache "top coins" once.
      if (page === 1 && (!app.state.topCoins || !app.state.topCoins.length)) {
        setState({ topCoins: coins.slice() });
      }
      renderTicker(coins, { page });
    } catch (err) {
      console.error("Failed to load symbols page", err);
      setState({ coins: [], filteredCoins: [], totalCoins: 0 });
      renderTicker([], { page });
    }
  };
  \<close>
  \<open>setState\<close> has no exceptional exit, so only its store is taken. An exception of
  \<open>renderTicker\<close> is caught like one of the fetch, after the state has been set;
  \<open>renderTicker\<close> on the empty list does not throw. \<open>load_failed\<close> is the \<open>catch\<close> block.
\<close>

definition page_patch :: "coin list \<Rightarrow> jsval \<Rightarrow> patch" where
  "page_patch cs tot =
     empty_patch\<lparr>p_coins := Some cs, p_filteredCoins := Some cs, p_totalCoins := Some tot\<rparr>"

definition load_failed :: "js_error \<Rightarrow> store \<Rightarrow> store" where
  "load_failed err st =
     snd (setState (PObject (page_patch [] (JNum (Fin 0))))
            (st\<lparr>console_errors := console_errors st @ [err]\<rparr>))"

definition loadCoinsPage :: "builtins \<Rightarrow> jsnum \<Rightarrow> jsnum \<Rightarrow> world \<Rightarrow> world" where
  "loadCoinsPage b page psize w =
     (let q = currentQuery (state (app_store w)) in
      case fetchSymbolsPage (num_of_text b) (num_or page (Fin 1)) (num_or psize (Fin 50)) q
             (network w) of
        (Inr (cs, tot), n') \<Rightarrow>
          (let st1 = snd (setState (PObject (page_patch cs tot)) (app_store w));
               st2 = (if page = Fin 1 \<and> topCoins (state st1) = []
                      then snd (setState (PObject (empty_patch\<lparr>p_topCoins := Some cs\<rparr>)) st1)
                      else st1)
           in case renderTicker (page_dom w) cs page of
                Inr u \<Rightarrow> w\<lparr>app_store := st2, network := n'\<rparr>
              | Inl err \<Rightarrow> w\<lparr>app_store := load_failed err st2, network := n'\<rparr>)
      | (Inl err, n') \<Rightarrow> w\<lparr>app_store := load_failed err (app_store w), network := n'\<rparr>)"

text \<open>
  \<^verbatim>\<open>
  app.init = async function () {
    const pagination = app.internal.pagination || { pageSize: 50, currentPage: 1 };
    app.internal.pagination = pagination;
    if (!pagination.pageSize) pagination.pageSize = 50;
    if (!pagination.currentPage) pagination.currentPage = 1;
    await app.loadCoinsPage(pagination.currentPage, pagination.pageSize);
  };
  \<close>
\<close>

definition init :: "builtins \<Rightarrow> world \<Rightarrow> world" where
  "init b w =
     (let p0 = (case internal_pagination w of
                  None \<Rightarrow> \<lparr>pageSize = Fin 50, currentPage = Fin 1\<rparr>
                | Some p \<Rightarrow> p);
          p1 = \<lparr>pageSize = num_or (pageSize p0) (Fin 50),
                currentPage = num_or (currentPage p0) (Fin 1)\<rparr>
      in loadCoinsPage b (currentPage p1) (pageSize p1) (w\<lparr>internal_pagination := Some p1\<rparr>))"

section \<open>ui.js: the detail range loader\<close>

text \<open>
  \<^verbatim>\<open>
  function rangeLabelToTimeframeParam(rangeLabel) {
      const label = (rangeLabel || "").toUpperCase();
      if (label === "1D") return "1d";
      if (label === "1Y") return "1y";
      if (label === "10Y") return "10y";
      return null;
  }
  \<close>
\<close>

definition rangeLabelToTimeframeParam :: "builtins \<Rightarrow> string \<Rightarrow> jsval" where
  "rangeLabelToTimeframeParam b rangeLabel =
     (let label = toUpperCase b rangeLabel in
      if label = ''1D'' then JStr ''1d''
      else if label = ''1Y'' then JStr ''1y''
      else if label = ''10Y'' then JStr ''10y''
      else JNull)"

text \<open>
  \<^verbatim>\<open>
  async function loadAndRenderDetailRange(symbolKey, effectiveSymbol, rangeLabel) {
      if (!internal.pricesByRange) internal.pricesByRange = {};
      const tfParam = rangeLabelToTimeframeParam(rangeLabel);
      const cacheKey = (rangeLabel || "").toUpperCase();
      let prices = internal.pricesByRange[cacheKey];
      if (!prices) {
          prices = await api.fetchPrices(symbolKey, tfParam);
          internal.pricesByRange[cacheKey] = prices;
      }
      updateDetailHeader(symbolKey, prices);
      renderDetailChart(prices, cacheKey);
      attachDownloadButtons(effectiveSymbol, prices);
  }
  \<close>
  A cached series is an array, which is truthy even when empty. The three rendering
  calls touch neither the cache nor the network; they are modelled by recording the
  series and label they are given, for a series they can show (they read the fields of
  its first and last entry and of every entry, which fails on a \<open>null\<close> entry, after the
  cache is written). The parameter \<open>lt\<close> is the operator \<open><\<close> on dates.
\<close>

definition loadAndRenderDetailRange ::
  "builtins \<Rightarrow> (jsval \<Rightarrow> jsval \<Rightarrow> bool) \<Rightarrow> jsval \<Rightarrow> jsval \<Rightarrow> string \<Rightarrow> world
     \<Rightarrow> (js_error + unit) \<times> world" where
  "loadAndRenderDetailRange b lt symbolKey effectiveSymbol rangeLabel w =
     (let cache = (case internal_pricesByRange w of None \<Rightarrow> (\<lambda>k. None) | Some c \<Rightarrow> c);
          w0 = w\<lparr>internal_pricesByRange := Some cache\<rparr>;
          tfParam = rangeLabelToTimeframeParam b rangeLabel;
          cacheKey = toUpperCase b rangeLabel
      in case cache cacheKey of
           Some prices \<Rightarrow> (Inr (), w0\<lparr>detail_shown := Some (cacheKey, prices)\<rparr>)
         | None \<Rightarrow>
             (case fetchPrices lt symbolKey tfParam (network w0) of
                (Inl err, n') \<Rightarrow> (Inl err, w0\<lparr>network := n'\<rparr>)
              | (Inr prices, n') \<Rightarrow>
                  (Inr (), w0\<lparr>network := n',
                               internal_pricesByRange := Some (cache(cacheKey \<mapsto> prices)),
                               detail_shown := Some (cacheKey, prices)\<rparr>)))"

section \<open>ui.js: the summary cards\<close>

text \<open>
  \<^verbatim>\<open>
  function buildSparklinePoints(changePercent) {
      const n = 20;
      const base = 100;
      const trendFactor = 1 + (Number(changePercent) || 0) / 100;
      const end = base * trendFactor;
      const points = [];
      for (let i = 0; i < n; i++) {
          const t = i / (n - 1);
          const val = base + (end - base) * t + (Math.random() - 0.5) * 4;
          points.push(val);
      }
      return points;
  }
  \<close>
  \<open>draw i\<close> is what the \<open>i\<close>-th call of \<open>Math.random\<close> returns. The points are computed
  for a finite trend; with an infinite one they are infinite or NaN, which is \<open>None\<close>.
  \<open>points_for\<close> is the function after the conversion of its argument.
\<close>

definition points_for :: "jsnum \<Rightarrow> (nat \<Rightarrow> rat) \<Rightarrow> rat list option" where
  "points_for converted draw =
     (case js_add (Fin 1) (js_div (num_or converted (Fin 0)) (Fin 100)) of
        Fin trendFactor \<Rightarrow>
          (let base = 100; end_v = base * trendFactor
           in Some (map (\<lambda>i. base + (end_v - base) * (of_nat i / 19) + (draw i - 1 / 2) * 4)
                      [0..<20]))
      | _ \<Rightarrow> None)"

definition buildSparklinePoints ::
  "builtins \<Rightarrow> jsval \<Rightarrow> (nat \<Rightarrow> rat) \<Rightarrow> js_error + rat list option" where
  "buildSparklinePoints b changePercent draw =
     (case Number b changePercent of
        Inl e \<Rightarrow> Inl e
      | Inr converted \<Rightarrow> Inr (points_for converted draw))"

text \<open>
  \<^verbatim>\<open>
  function buildSparklinePath(points, width = 100, height = 32) {
      if (!points.length) return {d: "", width, height};
      const min = Math.min(...points);
      const max = Math.max(...points);
      const span = max - min || 1;
      const coords = points.map((p, i) => {
          const x = (i / (points.length - 1)) * width;
          const y = height - ((p - min) / span) * height;
          return [x, y];
      });
      let d = `M ${coords[0][0]} ${coords[0][1]}`;
      for (let i = 1; i < coords.length; i++) { const [x, y] = coords[i]; d += ` L ${x} ${y}`; }
      return {d, width, height};
  }
  \<close>
  The path is the list of its coordinates, at the default width and height. A single
  point has \<open>x = 0 / 0\<close>, which is NaN: \<open>None\<close>.
\<close>

definition buildSparklinePath :: "rat list \<Rightarrow> (rat \<times> rat) list option" where
  "buildSparklinePath points =
     (case points of
        [] \<Rightarrow> Some []
      | [p] \<Rightarrow> None
      | p # ps \<Rightarrow>
          (let mn = fold min ps p; mx = fold max ps p;
               span = (if mx - mn = 0 then 1 else mx - mn)
           in Some (map (\<lambda>(i, q). (of_nat i / of_nat (length points - 1) * 100,
                                    32 - (q - mn) / span * 32))
                      (enumerate 0 points))))"

text \<open>
  The callback that builds one card:
  \<^verbatim>\<open>
  const priceText = formatPrice(coin.price);
  const {text: changeText, cls: changeCls} = formatChange(coin.change);
  const symbolDisplay = coin.symbol || coin.name || coin.fullSymbol || "[em dash]";
  const nameDisplay = coin.name && coin.name !== symbolDisplay ? coin.name : symbolDisplay;
  const detailSymbol = encodeURIComponent(coin.fullSymbol || coin.symbol || coin.name || "");
  const pts = buildSparklinePoints(coin.change);
  const path = buildSparklinePath(pts);
  const isUp = (coin.change || 0) >= 0;
  const strokeColor = isUp ? "#22c55e" : "#ef4444";
  return `... data-card-symbol="${detailSymbol}" ... ${symbolDisplay.charAt(0) || "?"} ...
          ${nameDisplay} ... ${symbolDisplay} ... ${changeCls} ... ${changeText} ...
          ${priceText} ... ${path.d} ... ${strokeColor} ...`;
  \<close>
  \<open>charAt\<close> exists on strings only; on any other value the call is a TypeError.
  \<open>encodeURIComponent\<close>, the comparison with \<open>0\<close> and each interpolation convert their
  value, which can throw. The steps are taken in the order of the source, and the first
  exception ends the callback.
\<close>

definition symbolDisplay :: "coin \<Rightarrow> jsval" where
  "symbolDisplay c = js_or (js_or (js_or (symbol c) (name c)) (fullSymbol c)) (JStr placeholder)"

definition nameDisplay :: "coin \<Rightarrow> jsval" where
  "nameDisplay c =
     (if truthy (name c) \<and> name c \<noteq> symbolDisplay c then name c else symbolDisplay c)"

definition detailSymbol :: "builtins \<Rightarrow> coin \<Rightarrow> js_error + string" where
  "detailSymbol b c =
     (case String b (js_or (js_or (js_or (fullSymbol c) (symbol c)) (name c)) (JStr [])) of
        Inl e \<Rightarrow> Inl e
      | Inr t \<Rightarrow> Inr (uri_component b t))"

fun charAt0_or :: "jsval \<Rightarrow> js_error + string" where
  "charAt0_or (JStr s) = Inr (case s of [] \<Rightarrow> ''?'' | x # _ \<Rightarrow> [x])"
| "charAt0_or _ = Inl (TypeError ''symbolDisplay.charAt is not a function'')"

definition path_for :: "rat list option \<Rightarrow> (rat \<times> rat) list option" where
  "path_for pts = (case pts of None \<Rightarrow> None | Some ps \<Rightarrow> buildSparklinePath ps)"

definition sparkline ::
  "builtins \<Rightarrow> jsval \<Rightarrow> (nat \<Rightarrow> rat) \<Rightarrow> js_error + (rat \<times> rat) list option" where
  "sparkline b changePercent draw =
     (case buildSparklinePoints b changePercent draw of
        Inl e \<Rightarrow> Inl e
      | Inr pts \<Rightarrow> Inr (path_for pts))"

definition strokeColor :: "builtins \<Rightarrow> coin \<Rightarrow> js_error + string" where
  "strokeColor b c =
     (case Number b (js_or (change c) (JNum (Fin 0))) of
        Inl e \<Rightarrow> Inl e
      | Inr n \<Rightarrow> Inr (if js_ge n (Fin 0) then ''#22c55e'' else ''#ef4444''))"

definition build_card :: "builtins \<Rightarrow> (nat \<Rightarrow> rat) \<Rightarrow> coin \<Rightarrow> js_error + card" where
  "build_card b draw c =
     (case formatPrice b (price c) of Inl e \<Rightarrow> Inl e | Inr priceText \<Rightarrow>
     (case formatChange b (change c) of Inl e \<Rightarrow> Inl e | Inr changed \<Rightarrow>
     (case detailSymbol b c of Inl e \<Rightarrow> Inl e | Inr detail \<Rightarrow>
     (case sparkline b (change c) draw of Inl e \<Rightarrow> Inl e | Inr path \<Rightarrow>
     (case strokeColor b c of Inl e \<Rightarrow> Inl e | Inr stroke \<Rightarrow>
     (case charAt0_or (symbolDisplay c) of Inl e \<Rightarrow> Inl e | Inr initial \<Rightarrow>
     (case String b (nameDisplay c) of Inl e \<Rightarrow> Inl e | Inr nameText \<Rightarrow>
     (case String b (symbolDisplay c) of Inl e \<Rightarrow> Inl e | Inr tickerText \<Rightarrow>
        Inr \<lparr>card_symbol = detail,
             card_initial = initial,
             card_name = nameText,
             card_ticker = tickerText,
             card_change_cls = snd changed,
             card_change_text = fst changed,
             card_price = priceText,
             card_path = path,
             card_stroke = stroke,
             card_listeners = [OpenCoin detail]\<rparr>))))))))"

text \<open>
  \<^verbatim>\<open>
  function renderTopCards() {
      const container = document.getElementById("top-cards-container");
      if (!container) return;
      const allCoins = (
          state.topCoins && state.topCoins.length ? state.topCoins : state.coins || []
      ).slice();
      if (!allCoins.length) { container.innerHTML = ""; return; }
      allCoins.sort((a, b) => {
          const ra = a.rank ?? Number.MAX_SAFE_INTEGER;
          const rb = b.rank ?? Number.MAX_SAFE_INTEGER;
          return ra - rb;
      });
      const top = allCoins.slice(0, 5);
      container.innerHTML = top.map((coin) => { ... }).join("");
      container.querySelectorAll("[data-card-symbol]").forEach((card) => {
          card.addEventListener("click", () => { ... });
      });
  }
  \<close>
  The sort works on a copy. The comparator subtracts, which converts both ranks and
  throws on one that cannot be converted; \<open>sort\<close> calls it on every element of an array
  of two or more. Assigning \<open>innerHTML\<close> replaces the children of the container, and with
  them their listeners; each new card then gets one listener. \<open>rnd i\<close> is the sequence
  of random draws of the \<open>i\<close>-th card.
\<close>

definition MAX_SAFE_INTEGER :: jsnum where
  "MAX_SAFE_INTEGER = Fin 9007199254740991"

definition rank_or_max :: "coin \<Rightarrow> jsval" where
  "rank_or_max c = nullish_or (rank c) (JNum MAX_SAFE_INTEGER)"

definition rank_before :: "builtins \<Rightarrow> coin \<Rightarrow> coin \<Rightarrow> bool" where
  "rank_before b x y =
     js_lt (js_sub (to_number (num_of_text b) (rank_or_max x))
                   (to_number (num_of_text b) (rank_or_max y)))
           (Fin 0)"

definition sort_throws :: "coin list \<Rightarrow> bool" where
  "sort_throws cs = (2 \<le> length cs \<and> (\<exists>c \<in> set cs. unconvertible (rank_or_max c)))"

definition top_source :: "app_state \<Rightarrow> coin list" where
  "top_source s = (if topCoins s \<noteq> [] then topCoins s else coins s)"

definition top_five :: "builtins \<Rightarrow> app_state \<Rightarrow> coin list" where
  "top_five b s = take 5 (js_sort (rank_before b) (top_source s))"

definition renderTopCards ::
  "builtins \<Rightarrow> (nat \<Rightarrow> nat \<Rightarrow> rat) \<Rightarrow> app_state \<Rightarrow> dom \<Rightarrow> js_error + dom" where
  "renderTopCards b rnd s d =
     (if \<not> has_top_cards d then Inr d
      else if top_source s = [] then Inr (d\<lparr>top_cards := []\<rparr>)
      else if sort_throws (top_source s) then Inl conversion_error
      else case map_result (\<lambda>(i, c). build_card b (rnd i) c) (enumerate 0 (top_five b s)) of
             Inl e \<Rightarrow> Inl e
           | Inr cards \<Rightarrow> Inr (d\<lparr>top_cards := cards\<rparr>))"

section \<open>ui.js: the dashboard render and its handlers\<close>

text \<open>
  \<^verbatim>\<open>
  function getPaginationState() {
      if (!internal.pagination) internal.pagination = {pageSize: 50, currentPage: 1};
      return internal.pagination;
  }
  \<close>
\<close>

definition getPaginationState :: "world \<Rightarrow> pagination_state \<times> world" where
  "getPaginationState w =
     (case internal_pagination w of
        Some p \<Rightarrow> (p, w)
      | None \<Rightarrow>
          (let p = \<lparr>pageSize = Fin 50, currentPage = Fin 1\<rparr>
           in (p, w\<lparr>internal_pagination := Some p\<rparr>)))"

text \<open>
  \<^verbatim>\<open>
  function ensurePaginationContainer() {
      let container = document.getElementById("pagination-container");
      if (container) return container;
      const panel = document.querySelector("#view-dashboard .panel-clean");
      container = document.createElement("div");
      ...
      if (panel) panel.appendChild(container);
      return container;
  }
  \<close>
  The flag tells whether the returned element is in the document. What is written into
  a detached element is not displayed.
\<close>

definition ensurePaginationContainer :: "dom \<Rightarrow> bool \<times> dom" where
  "ensurePaginationContainer d =
     (case pag_container d of
        Some c \<Rightarrow> (True, d)
      | None \<Rightarrow> if has_panel d then (True, d\<lparr>pag_container := Some None\<rparr>) else (False, d))"

definition set_pagination :: "pag_bar option \<Rightarrow> dom \<Rightarrow> dom" where
  "set_pagination content d =
     (case ensurePaginationContainer d of
        (True, d') \<Rightarrow> d'\<lparr>pag_container := Some content\<rparr>
      | (False, d') \<Rightarrow> d')"

definition show_no_results :: "bool \<Rightarrow> dom \<Rightarrow> dom" where
  "show_no_results v d = (if has_no_results d then d\<lparr>no_results_shown := v\<rparr> else d)"

definition total_of :: "app_state \<Rightarrow> jsnum" where
  "total_of s =
     (case totalCoins s of JNum n \<Rightarrow> n | _ \<Rightarrow> Fin (of_nat (length (filteredCoins s))))"

definition total_pages :: "builtins \<Rightarrow> jsnum \<Rightarrow> jsnum \<Rightarrow> jsnum" where
  "total_pages b tot psize = js_max (Fin 1) (js_ceil (double_div b tot psize))"

definition clamp_page :: "jsnum \<Rightarrow> jsnum \<Rightarrow> jsnum" where
  "clamp_page cp totalPages = js_min (js_max cp (Fin 1)) totalPages"

text \<open>
  The callback that builds one row:
  \<^verbatim>\<open>
  const globalIndex = startIndex + idx + 1;
  const priceText = formatPrice(coin.price);
  const {text: changeText, cls: changeCls} = formatChange(coin.change);
  const volText = coin.vol != null ? coin.vol : "[em dash]";
  const symbolDisplay = ...; const nameDisplay = ...; const detailSymbol = ...;
  return `... ${globalIndex} ... ${symbolDisplay.charAt(0) || "?"} ... ${nameDisplay} ...
          ${symbolDisplay} ... ${priceText} ... ${changeCls} ... ${changeText} ...
          ${volText} ... data-symbol="${detailSymbol}" ...`;
  \<close>
\<close>

definition volText :: "coin \<Rightarrow> jsval" where
  "volText c = (if is_nullish (vol c) then JStr placeholder else vol c)"

definition build_row :: "builtins \<Rightarrow> jsnum \<Rightarrow> nat \<times> coin \<Rightarrow> js_error + row" where
  "build_row b startIndex ic =
     (case formatPrice b (price (snd ic)) of Inl e \<Rightarrow> Inl e | Inr priceText \<Rightarrow>
     (case formatChange b (change (snd ic)) of Inl e \<Rightarrow> Inl e | Inr changed \<Rightarrow>
     (case detailSymbol b (snd ic) of Inl e \<Rightarrow> Inl e | Inr detail \<Rightarrow>
     (case charAt0_or (symbolDisplay (snd ic)) of Inl e \<Rightarrow> Inl e | Inr initial \<Rightarrow>
     (case String b (nameDisplay (snd ic)) of Inl e \<Rightarrow> Inl e | Inr nameText \<Rightarrow>
     (case String b (symbolDisplay (snd ic)) of Inl e \<Rightarrow> Inl e | Inr tickerText \<Rightarrow>
     (case String b (volText (snd ic)) of Inl e \<Rightarrow> Inl e | Inr volume \<Rightarrow>
        Inr \<lparr>row_index = js_add (js_add startIndex (Fin (of_nat (fst ic)))) (Fin 1),
             row_initial = initial,
             row_name = nameText,
             row_ticker = tickerText,
             row_price = priceText,
             row_change_cls = snd changed,
             row_change_text = fst changed,
             row_vol = volume,
             row_symbol = detail,
             row_listeners = [OpenCoin detail]\<rparr>)))))))"

definition build_bar :: "jsnum \<Rightarrow> jsnum \<Rightarrow> jsnum \<Rightarrow> jsnum \<Rightarrow> nat \<Rightarrow> pag_bar" where
  "build_bar tot psize totalPages page ncoins =
     (let startIndex = js_mul (js_sub page (Fin 1)) psize;
          endIndex = js_min (js_add startIndex (Fin (of_nat ncoins))) tot
      in \<lparr>rows_per_page = psize,
          showing_from = js_add startIndex (Fin 1),
          showing_to = endIndex,
          showing_total = tot,
          page_shown = page,
          pages_shown = totalPages,
          prev_disabled = js_le page (Fin 1),
          next_disabled = js_ge page totalPages,
          select_listeners = [ChangeRows],
          prev_listeners = [PrevPage],
          next_listeners = [NextPage totalPages]\<rparr>)"

text \<open>
  \<^verbatim>\<open>
  ui.renderDashboard = function () {
      const tbody = document.getElementById("market-table-body");
      if (!tbody) return;
      renderTopCards();
      const noResEl = document.getElementById("no-results");
      const coins = state.filteredCoins || [];
      if (!coins.length) {
          tbody.innerHTML = "";
          if (noResEl) { noResEl.classList.remove("hidden", "hidden-view"); noResEl.style.display = "block"; }
          const pag = ensurePaginationContainer();
          if (pag) pag.innerHTML = "";
          return;
      }
      if (noResEl) { noResEl.classList.add("hidden", "hidden-view"); noResEl.style.display = "none"; }
      const pagination = getPaginationState();
      const total = typeof state.totalCoins === "number" ? state.totalCoins : coins.length;
      const pageSize = pagination.pageSize || 50;
      const totalPages = Math.max(1, Math.ceil(total / pageSize));
      pagination.currentPage = Math.min(Math.max(pagination.currentPage, 1), totalPages);
      const page = pagination.currentPage;
      const startIndex = (page - 1) * pageSize;
      const endIndex = Math.min(startIndex + coins.length, total);
      tbody.innerHTML = coins.map((coin, idx) => { ... }).join("");
      tbody.querySelectorAll("button[data-symbol]").forEach((btn) => {
          btn.addEventListener("click", () => { ... });
      });
      const pagContainer = ensurePaginationContainer();
      if (!pagContainer) return;
      pagContainer.innerHTML = `...`;
      const sel = pagContainer.querySelector("#rows-per-page-select");
      const prevBtn = pagContainer.querySelector("#pag-prev");
      const nextBtn = pagContainer.querySelector("#pag-next");
      if (sel) { sel.addEventListener("change", async (e) => { ... }); }
      if (prevBtn) { prevBtn.disabled = page <= 1; prevBtn.addEventListener("click", async () => { ... }); }
      if (nextBtn) { nextBtn.disabled = page >= totalPages; nextBtn.addEventListener("click", async () => { ... }); }
  };
  \<close>
  An exception of the card or row templates leaves the function before the
  \<open>innerHTML\<close> assignment it belongs to; the clamped page is written before the rows are
  built.
\<close>

definition renderDashboard ::
  "builtins \<Rightarrow> (nat \<Rightarrow> nat \<Rightarrow> rat) \<Rightarrow> world \<Rightarrow> (js_error + unit) \<times> world" where
  "renderDashboard b rnd w =
     (let s = state (app_store w) in
      if \<not> has_tbody (page_dom w) then (Inr (), w)
      else case renderTopCards b rnd s (page_dom w) of
        Inl e \<Rightarrow> (Inl e, w)
      | Inr d1 \<Rightarrow>
          if filteredCoins s = []
          then (Inr (), w\<lparr>page_dom := set_pagination None (show_no_results True (d1\<lparr>table_rows := []\<rparr>))\<rparr>)
          else
            (let d2 = show_no_results False d1;
                 (p, w1) = getPaginationState (w\<lparr>page_dom := d2\<rparr>);
                 tot = total_of s;
                 psize = num_or (pageSize p) (Fin 50);
                 totalPages = total_pages b tot psize;
                 page = clamp_page (currentPage p) totalPages;
                 w2 = w1\<lparr>internal_pagination := Some (p\<lparr>currentPage := page\<rparr>)\<rparr>
             in case map_result (build_row b (js_mul (js_sub page (Fin 1)) psize))
                       (enumerate 0 (filteredCoins s)) of
                  Inl e \<Rightarrow> (Inl e, w2)
                | Inr rows \<Rightarrow>
                    (Inr (),
                     w2\<lparr>page_dom :=
                          set_pagination
                            (Some (build_bar tot psize totalPages page (length (filteredCoins s))))
                            (d2\<lparr>table_rows := rows\<rparr>)\<rparr>)))"

text \<open>
  The three pagination handlers:
  \<^verbatim>\<open>
  sel.addEventListener("change", async (e) => {
      const v = Number(e.target.value);
      const p = getPaginationState();
      p.pageSize = v || 50;
      p.currentPage = 1;
      await app.loadCoinsPage(p.currentPage, p.pageSize);
      ui.renderDashboard();
  });
  prevBtn.addEventListener("click", async () => {
      const p = getPaginationState();
      if (p.currentPage > 1) {
          p.currentPage -= 1;
          await app.loadCoinsPage(p.currentPage, p.pageSize);
          ui.renderDashboard();
      }
  });
  nextBtn.addEventListener("click", async () => {
      const p = getPaginationState();
      if (p.currentPage < totalPages) {
          p.currentPage += 1;
          await app.loadCoinsPage(p.currentPage, p.pageSize);
          ui.renderDashboard();
      }
  });
  \<close>
  \<open>v\<close> is the number the select's value converts to.
\<close>

definition load_and_render ::
  "builtins \<Rightarrow> (nat \<Rightarrow> nat \<Rightarrow> rat) \<Rightarrow> pagination_state \<Rightarrow> world \<Rightarrow> (js_error + unit) \<times> world" where
  "load_and_render b rnd p w =
     renderDashboard b rnd
       (loadCoinsPage b (currentPage p) (pageSize p) (w\<lparr>internal_pagination := Some p\<rparr>))"

definition on_rows_change ::
  "builtins \<Rightarrow> (nat \<Rightarrow> nat \<Rightarrow> rat) \<Rightarrow> jsnum \<Rightarrow> world \<Rightarrow> (js_error + unit) \<times> world" where
  "on_rows_change b rnd v w =
     (let (p, w1) = getPaginationState w
      in load_and_render b rnd (p\<lparr>pageSize := num_or v (Fin 50), currentPage := Fin 1\<rparr>) w1)"


definition on_next ::
  "builtins \<Rightarrow> (nat \<Rightarrow> nat \<Rightarrow> rat) \<Rightarrow> jsnum \<Rightarrow> world \<Rightarrow> (js_error + unit) \<times> world" where
  "on_next b rnd totalPages w =
     (let (p, w1) = getPaginationState w
      in if js_lt (currentPage p) totalPages
         then load_and_render b rnd (p\<lparr>currentPage := js_add (currentPage p) (Fin 1)\<rparr>) w1
         else (Inr (), w1))"

text \<open>
  \<^verbatim>\<open>
  ui.handleSearch = async function (query) {
      state.currentQuery = (query || "").trim();
      const p = getPaginationState();
      p.currentPage = 1;
      await app.loadCoinsPage(p.currentPage, p.pageSize || 50);
      ui.renderDashboard();
  };
  \<close>
  The query is written into the state directly, not through \<open>setState\<close>.
\<close>

definition handleSearch ::
  "builtins \<Rightarrow> (nat \<Rightarrow> nat \<Rightarrow> rat) \<Rightarrow> string \<Rightarrow> world \<Rightarrow> (js_error + unit) \<times> world" where
  "handleSearch b rnd query w =
     (let st = app_store w;
          w0 = w\<lparr>app_store := st\<lparr>state := (state st)\<lparr>currentQuery := js_trim query\<rparr>\<rparr>\<rparr>;
          (p, w1) = getPaginationState w0;
          p1 = p\<lparr>currentPage := Fin 1\<rparr>
      in renderDashboard b rnd
           (loadCoinsPage b (currentPage p1) (num_or (pageSize p1) (Fin 50))
              (w1\<lparr>internal_pagination := Some p1\<rparr>)))"

section \<open>Sample inputs and auxiliary notions\<close>

text \<open>
  Concrete inputs for the closed theorems below: a network that is down, one that
  answers every request with the same body, one whose first request fails, and one that
  answers the first request with an empty list and later ones with one entry. The
  section also names the notions that the statements below are written with.
\<close>

definition offline :: net where
  "offline = \<lparr>server = (\<lambda>i url. Rejected), requests = []\<rparr>"

definition answers :: "jsval \<Rightarrow> net" where
  "answers body = \<lparr>server = (\<lambda>i url. Response True (Some body)), requests = []\<rparr>"

definition flaky :: net where
  "flaky =
     \<lparr>server = (\<lambda>i url. if i = 0 then Rejected else Response True (Some (JArr []))),
      requests = []\<rparr>"

definition btc_raw :: jsval where
  "btc_raw = JObj [(''id'', JNum (Fin 1)), (''rank'', JNum (Fin 1)), (''name'', JStr ''BTC''),
                   (''symbol'', JStr ''BTCUSDT''), (''price'', JNum (Fin 50000)),
                   (''change'', JNum (Fin 2))]"

definition late :: net where
  "late =
     \<lparr>server = (\<lambda>i url. if i = 0 then Response True (Some (JArr []))
                         else Response True (Some (JArr [btc_raw]))),
      requests = []\<rparr>"

definition blank_dom :: dom where
  "blank_dom =
     \<lparr>has_tbody = True, has_top_cards = True, has_no_results = True, has_panel = True,
      has_ticker = True, top_cards = [], table_rows = [], no_results_shown = False,
      pag_container = None\<rparr>"

definition fresh_world :: "net \<Rightarrow> world" where
  "fresh_world n =
     \<lparr>app_store = \<lparr>state = initial_state, listeners = [], calls = [], console_errors = []\<rparr>,
      network = n,
      internal_pagination = None,
      internal_pricesByRange = None,
      detail_shown = None,
      page_dom = blank_dom\<rparr>"

text \<open>
  A sample of the builtins. Its number conversion reads the empty text as 0 and every
  other text, array or object as NaN, which is what JavaScript gives for the texts used
  below; its formatting functions return \<open>1.00\<close> for the price 1 and a fixed text
  otherwise; it leaves a quotient as it is, which has the ceiling of the rounded quotient
  for the numbers used below.
\<close>

definition sample_builtins :: builtins where
  "sample_builtins =
     \<lparr>num_of_text = (\<lambda>v. if v = JStr [] then Fin 0 else NaN),
      text_of = (\<lambda>v. ''?''),
      locale_fixed2 = (\<lambda>n. if n = Fin 1 then ''1.00'' else ''#''),
      locale_max2 = (\<lambda>n. ''#''),
      precision6 = (\<lambda>n. ''#''),
      fixed2 = (\<lambda>n. ''#''),
      intl_compact = (\<lambda>n. Some ''#''),
      uri_component = (\<lambda>s. s),
      upper_text = (\<lambda>s. s),
      to_double = (\<lambda>r. r)\<rparr>"

definition sample_coin :: "jsval \<Rightarrow> string \<Rightarrow> coin" where
  "sample_coin r nm =
     \<lparr>coin_id = JNull, rank = r, symbol = JStr nm, fullSymbol = JStr nm, name = JStr nm,
      price = JNull, change = JNull, vol = JNull, mcap = JNull\<rparr>"

text \<open>The card and the row that the templates build for a sample entry.\<close>

definition sample_card :: "(nat \<Rightarrow> rat) \<Rightarrow> string \<Rightarrow> card" where
  "sample_card draw nm =
     \<lparr>card_symbol = nm, card_initial = [hd nm], card_name = nm, card_ticker = nm,
      card_change_cls = [], card_change_text = placeholder, card_price = placeholder,
      card_path = path_for (points_for (Fin 0) draw), card_stroke = ''#22c55e'',
      card_listeners = [OpenCoin nm]\<rparr>"

definition sample_row :: "jsnum \<Rightarrow> string \<Rightarrow> row" where
  "sample_row i nm =
     \<lparr>row_index = i, row_initial = [hd nm], row_name = nm, row_ticker = nm,
      row_price = placeholder, row_change_cls = [], row_change_text = placeholder,
      row_vol = placeholder, row_symbol = nm, row_listeners = [OpenCoin nm]\<rparr>"


text \<open>
  The key the rank comparator orders by, for an entry whose rank is a finite number or
  missing: the rank, or \<open>Number.MAX_SAFE_INTEGER\<close> when it is missing.
\<close>

definition rank_ok :: "coin \<Rightarrow> bool" where
  "rank_ok c =
     (case rank c of JNum (Fin r) \<Rightarrow> True | JNull \<Rightarrow> True | JUndefined \<Rightarrow> True | _ \<Rightarrow> False)"

definition rank_key :: "coin \<Rightarrow> rat" where
  "rank_key c = (case rank c of JNum (Fin r) \<Rightarrow> r | _ \<Rightarrow> 9007199254740991)"

text \<open>What the page fetch of \<open>loadCoinsPage\<close> returns in a given world.\<close>

definition fetched :: "builtins \<Rightarrow> jsnum \<Rightarrow> jsnum \<Rightarrow> world \<Rightarrow> js_error + coin list \<times> jsval" where
  "fetched b page psize w =
     fst (fetchSymbolsPage (num_of_text b) (num_or page (Fin 1)) (num_or psize (Fin 50))
            (currentQuery (state (app_store w))) (network w))"

definition ranked_state :: app_state where
  "ranked_state =
     initial_state\<lparr>topCoins := [sample_coin (JNum (Fin 2)) ''ETH'', sample_coin JNull ''XYZ'',
                                sample_coin (JNum (Fin 1)) ''BTC'']\<rparr>"

definition ranked_world :: "net \<Rightarrow> world" where
  "ranked_world n =
     (fresh_world n)\<lparr>app_store :=
        \<lparr>state = ranked_state, listeners = [], calls = [], console_errors = []\<rparr>\<rparr>"

text \<open>The pagination state a handler or the render works on.\<close>

definition pagination_of :: "world \<Rightarrow> pagination_state" where
  "pagination_of w = fst (getPaginationState w)"

text \<open>
  A dashboard with three entries on the page, 137 entries in all, 50 rows per page, and
  the given current page.
\<close>

definition paged_world :: "jsnum \<Rightarrow> world" where
  "paged_world cp =
     (fresh_world offline)
       \<lparr>app_store :=
          \<lparr>state = ranked_state\<lparr>coins := topCoins ranked_state,
                                 filteredCoins := topCoins ranked_state,
                                 totalCoins := JNum (Fin 137)\<rparr>,
           listeners = [], calls = [], console_errors = []\<rparr>,
        internal_pagination := Some \<lparr>pageSize = Fin 50, currentPage = cp\<rparr>\<rparr>"

text \<open>
  The displayed output with the sparkline paths left out: the part of the document that
  does not depend on the random draws.
\<close>

definition erase_card :: "card \<Rightarrow> card" where
  "erase_card c = c\<lparr>card_path := None\<rparr>"

definition erase_paths :: "world \<Rightarrow> world" where
  "erase_paths w =
     w\<lparr>page_dom := (page_dom w)\<lparr>top_cards := map erase_card (top_cards (page_dom w))\<rparr>\<rparr>"

text \<open>The cards that the container holds after \<open>renderTopCards\<close>, or its exception.\<close>

definition cards_after ::
  "builtins \<Rightarrow> (nat \<Rightarrow> nat \<Rightarrow> rat) \<Rightarrow> app_state \<Rightarrow> dom \<Rightarrow> js_error + card list" where
  "cards_after b rnd s d =
     (if \<not> has_top_cards d then Inr (top_cards d)
      else if top_source s = [] then Inr []
      else if sort_throws (top_source s) then Inl conversion_error
      else map_result (\<lambda>(i, c). build_card b (rnd i) c) (enumerate 0 (top_five b s)))"

text \<open>Two sequences of draws: every draw in the middle, and one with a low first draw.\<close>

definition steady :: "nat \<Rightarrow> nat \<Rightarrow> rat" where
  "steady i j = 1 / 2"

definition dipped :: "nat \<Rightarrow> nat \<Rightarrow> rat" where
  "dipped i j = (if j = 0 then 0 else 1 / 2)"

text \<open>
  The steps of \<open>renderDashboard\<close> after the cards, by name: the pagination state with the
  page clamped, the rows built for it, and the bar shown for it.
\<close>

definition clamped :: "builtins \<Rightarrow> app_state \<Rightarrow> pagination_state \<Rightarrow> pagination_state" where
  "clamped b s p =
     p\<lparr>currentPage :=
         clamp_page (currentPage p)
           (total_pages b (total_of s) (num_or (pageSize p) (Fin 50)))\<rparr>"

definition rows_for :: "builtins \<Rightarrow> app_state \<Rightarrow> pagination_state \<Rightarrow> js_error + row list" where
  "rows_for b s p =
     map_result
       (build_row b (js_mul (js_sub (currentPage p) (Fin 1)) (num_or (pageSize p) (Fin 50))))
       (enumerate 0 (filteredCoins s))"

definition bar_for :: "builtins \<Rightarrow> app_state \<Rightarrow> pagination_state \<Rightarrow> pag_bar" where
  "bar_for b s p =
     build_bar (total_of s) (num_or (pageSize p) (Fin 50))
       (total_pages b (total_of s) (num_or (pageSize p) (Fin 50)))
       (currentPage p) (length (filteredCoins s))"

text \<open>
  The \<open>totalPages\<close> of the current state, as the render computes it, the search
  parameter that a page request carries, the listeners of the Next and Prev buttons that
  the document shows, and whether it shows a Next button that is not disabled.
\<close>

definition state_total_pages :: "builtins \<Rightarrow> world \<Rightarrow> jsnum" where
  "state_total_pages b w =
     total_pages b (total_of (state (app_store w)))
       (num_or (pageSize (pagination_of w)) (Fin 50))"

definition query_param :: "world \<Rightarrow> string option" where
  "query_param w =
     (let q = currentQuery (state (app_store w))
      in if q \<noteq> [] \<and> js_trim q \<noteq> [] then Some (js_trim q) else None)"

definition next_handlers :: "dom \<Rightarrow> handler list" where
  "next_handlers d =
     (case pag_container d of Some (Some bar) \<Rightarrow> next_listeners bar | _ \<Rightarrow> [])"


definition next_clickable :: "dom \<Rightarrow> bool" where
  "next_clickable d =
     (case pag_container d of Some (Some bar) \<Rightarrow> \<not> next_disabled bar | _ \<Rightarrow> False)"




text \<open>
  The sample dashboard after a render, and two dashboards that a click leaves behind.
  The first: on page 2 of 3, after a render, Next is clicked while the network is down.
  The second: on page 2 of 3, after a render, Prev is clicked and the network answers
  with the page above.
\<close>

definition rendered :: "jsnum \<Rightarrow> world" where
  "rendered cp = snd (renderDashboard sample_builtins steady (paged_world cp))"

definition after_failed_next :: world where
  "after_failed_next = snd (on_next sample_builtins steady (Fin 3) (rendered (Fin 2)))"


text \<open>Each control of the pagination bar, when there is a bar, carries one listener.\<close>

definition bar_listeners_one :: "pag_bar option option \<Rightarrow> bool" where
  "bar_listeners_one c =
     (case c of
        Some (Some bar) \<Rightarrow> length (select_listeners bar) = 1 \<and> length (prev_listeners bar) = 1
                           \<and> length (next_listeners bar) = 1
      | _ \<Rightarrow> True)"

section \<open>Properties of esc\<close>

lemma replace_all_Nil: "replace_all c r [] = []"
  by (simp add: replace_all_def)

lemma replace_all_append: "replace_all c r (xs @ ys) = replace_all c r xs @ replace_all c r ys"
  by (simp add: replace_all_def)

lemma replace_all_Cons:
  "replace_all c r (x # xs) = (if x = c then r else [x]) @ replace_all c r xs"
  by (simp add: replace_all_def)

lemma esc_chain_entity:
  "replace_all (CHR 0x27) ''&#039;''
     (replace_all (CHR 0x22) ''&quot;''
       (replace_all (CHR ''>'') ''&gt;''
         (replace_all (CHR ''<'') ''&lt;''
           (replace_all (CHR ''&'') ''&amp;'' s)))) = concat (map html_entity s)"
proof (induction s)
  case Nil
  show ?case by (simp add: replace_all_Nil)
next
  case (Cons x xs)
  have one: "replace_all (CHR 0x27) ''&#039;''
     (replace_all (CHR 0x22) ''&quot;''
       (replace_all (CHR ''>'') ''&gt;''
         (replace_all (CHR ''<'') ''&lt;''
           (if x = CHR ''&'' then ''&amp;'' else [x])))) = html_entity x"
    by (simp add: html_entity_def replace_all_Cons replace_all_Nil)
  show ?case
    using Cons.IH one
    by (simp only: replace_all_Cons [of "CHR ''&''"] replace_all_append
        concat.simps list.map)
qed

lemma html_entity_safe:
  "set (html_entity c) \<inter> {CHR ''<'', CHR ''>'', CHR 0x22, CHR 0x27} = {}"
  by (simp add: html_entity_def)

text \<open>
  C10. For every input \<open>esc\<close> returns a string: the empty string when the input is not
  a string, and for a string the text in which every character is replaced by its HTML
  entity in one pass (so the ampersand of an entity is never escaped again); the result
  contains none of the characters \<open><\<close>, \<open>>\<close>, double quote and single quote.
\<close>

theorem esc_escapes:
  "esc v = (case v of JStr s \<Rightarrow> concat (map html_entity s) | _ \<Rightarrow> [])
   \<and> set (esc v) \<inter> {CHR ''<'', CHR ''>'', CHR 0x22, CHR 0x27} = {}"
proof (cases v)
  case (JStr s)
  have "set (concat (map html_entity s)) \<inter> {CHR ''<'', CHR ''>'', CHR 0x22, CHR 0x27} = {}"
    using html_entity_safe by fastforce
  then show ?thesis
    using JStr esc_chain_entity [of s] by simp
qed simp_all

section \<open>Properties of the store\<close>

lemma notify_frame:
  "state (notify s p prev ls st) = state st \<and> listeners (notify s p prev ls st) = listeners st"
  by (induction ls arbitrary: st) (auto split: option.splits simp: Let_def)

lemma notify_calls:
  "calls (notify s p prev ls st) = calls st @ map fst ls"
  by (induction ls arbitrary: st) (auto split: option.splits simp: Let_def)

lemma notify_console:
  "console_errors (notify s p prev ls st) =
     console_errors st @ List.map_filter (\<lambda>l. snd l s p prev) ls"
  by (induction ls arbitrary: st) (auto split: option.splits simp: Let_def List.map_filter_simps)

text \<open>
  C5. For every patch object and every list of subscribers, whichever of them throw:
  \<open>setState\<close> returns normally; the state is the patched one (the mutation is kept); the
  listener set is unchanged; every subscriber has been called, once each, in registration
  order; and exactly the thrown errors, in that order, went to \<open>console.error\<close>.
\<close>

theorem setState_isolates_subscribers:
  "fst (setState (PObject p) st) = Inr ()
   \<and> state (snd (setState (PObject p) st)) = object_assign (state st) p
   \<and> listeners (snd (setState (PObject p) st)) = listeners st
   \<and> calls (snd (setState (PObject p) st)) = calls st @ map fst (listeners st)
   \<and> console_errors (snd (setState (PObject p) st)) =
       console_errors st @
       List.map_filter (\<lambda>l. snd l (object_assign (state st) p) p (state st)) (listeners st)"
  by (simp add: Let_def notify_frame notify_calls notify_console)

section \<open>Properties of the gateway\<close>

lemma getJson_rejected:
  "server n (length (requests n)) url = Rejected \<Longrightarrow> fst (getJson url n) = Inl NetworkError"
  by (simp add: getJson_def fetch_def)

lemma getJson_not_ok:
  "server n (length (requests n)) url = Response False body \<Longrightarrow> fst (getJson url n) = Inr JNull"
  by (simp add: getJson_def fetch_def)

lemma getJson_unparseable:
  "server n (length (requests n)) url = Response ok None \<Longrightarrow> fst (getJson url n) = Inr JNull"
  by (simp add: getJson_def fetch_def)


text \<open>
  A response that is not ok, or whose body does not parse, gives each operation its
  absent result: \<open>null\<close>, the empty series, or the empty page (for arguments that can be
  put into the URL).
\<close>

lemma gateway_absent_on_bad_response:
  assumes "server n (length (requests n)) = (\<lambda>url. Response ok body)"
    and "\<not> ok \<or> body = None"
    and "\<not> unconvertible symb" and "\<not> unconvertible lookback" and "\<not> unconvertible win"
    and "\<not> unconvertible lmt" and "\<not> unconvertible tf"
  shows "fst (fetchTechnical symb n) = Inr JNull"
    and "fst (fetchLstm symb lookback n) = Inr JNull"
    and "fst (fetchSentiment symb win lmt n) = Inr JNull"
    and "fst (fetchOnchain symb n) = Inr JNull"
    and "fst (fetchSignal symb n) = Inr JNull"
    and "fst (fetchPrices lt symb tf n) = Inr []"
    and "fst (fetchSymbolsPage coerce page psize q n) = Inr ([], JNum (Fin 0))"
  using assms
  by (auto simp add: fetchTechnical_def fetchLstm_def fetchSentiment_def fetchOnchain_def
      fetchSignal_def fetchPrices_def fetchSymbolsPage_def getJson_def fetch_def Let_def)

text \<open>
  C1. The claim fails on the code: when \<open>fetch\<close> rejects, \<open>getJson\<close> has no handler
  around it and each of the seven operations ends with the rejection instead of its
  absent result.
\<close>

theorem gateway_propagates_transport_failure:
  "fst (fetchSymbolsPage coerce (Fin 1) (Fin 50) [] offline) = Inl NetworkError
   \<and> fst (fetchPrices lt (JStr ''BTC'') JNull offline) = Inl NetworkError
   \<and> fst (fetchTechnical (JStr ''BTC'') offline) = Inl NetworkError
   \<and> fst (fetchLstm (JStr ''BTC'') (JNum (Fin 30)) offline) = Inl NetworkError
   \<and> fst (fetchSentiment (JStr ''BTC'') (JStr ''1d'') (JNum (Fin 30)) offline) = Inl NetworkError
   \<and> fst (fetchOnchain (JStr ''BTC'') offline) = Inl NetworkError
   \<and> fst (fetchSignal (JStr ''BTC'') offline) = Inl NetworkError"
  by (simp add: offline_def fetchSymbolsPage_def fetchPrices_def fetchTechnical_def fetchLstm_def
      fetchSentiment_def fetchOnchain_def fetchSignal_def getJson_def fetch_def)

lemma normalize_array:
  "normalizeSymbolsResponse (JArr xs) = (JArr xs, JNum (Fin (of_nat (length xs))))"
  by (simp add: normalizeSymbolsResponse_def)

lemma normalize_envelope:
  "map_of kvs ''items'' = Some (JArr xs) \<Longrightarrow> map_of kvs ''total'' = Some t \<Longrightarrow> \<not> is_nullish t
   \<Longrightarrow> normalizeSymbolsResponse (JObj kvs) = (JArr xs, t)"
  by (simp add: normalizeSymbolsResponse_def js_or_def nullish_or_def)

lemma normalize_unrecognized:
  "\<not> isArray payload \<Longrightarrow> \<not> truthy (opt_prop payload ''items'')
   \<Longrightarrow> fst (normalizeSymbolsResponse payload) = JArr []"
  by (simp add: normalizeSymbolsResponse_def js_or_def)

text \<open>
  C6. The claim fails on the code: an envelope whose \<open>items\<close> is a truthy value that is
  not an array (here the number 5) passes \<open>normalizeSymbolsResponse\<close> unchanged, and
  \<open>items.map\<close> in \<open>fetchSymbolsPage\<close> raises a TypeError.
\<close>

theorem fetchSymbolsPage_items_not_array:
  "fst (fetchSymbolsPage coerce (Fin 1) (Fin 50) [] (answers (JObj [(''items'', JNum (Fin 5))])))
     = Inl (TypeError ''items.map is not a function'')"
  by (simp add: answers_def fetchSymbolsPage_def getJson_def fetch_def normalizeSymbolsResponse_def
      js_or_def nullish_or_def)

section \<open>Properties of the range cache\<close>

lemma range_cache_hit:
  assumes "internal_pricesByRange w = Some c" and "c (toUpperCase b label) = Some ps"
  shows "loadAndRenderDetailRange b lt k e label w =
           (Inr (), w\<lparr>detail_shown := Some (toUpperCase b label, ps)\<rparr>)"
  using assms by (simp add: loadAndRenderDetailRange_def Let_def)

lemma range_cache_filled:
  assumes "fst (loadAndRenderDetailRange b lt k e label w) = Inr ()"
  shows "\<exists>c ps. internal_pricesByRange (snd (loadAndRenderDetailRange b lt k e label w)) = Some c
           \<and> c (toUpperCase b label) = Some ps
           \<and> detail_shown (snd (loadAndRenderDetailRange b lt k e label w)) =
               Some (toUpperCase b label, ps)"
  using assms
  by (auto simp add: loadAndRenderDetailRange_def Let_def
      split: option.splits prod.splits sum.splits)

lemma range_cache_entry_kept:
  assumes "internal_pricesByRange w = Some c" and "c key = Some ps"
  shows "\<exists>c'. internal_pricesByRange (snd (loadAndRenderDetailRange b lt k e label w)) = Some c'
           \<and> c' key = Some ps"
  using assms
  by (auto simp add: loadAndRenderDetailRange_def Let_def
      split: option.splits prod.splits sum.splits)

text \<open>
  When the first request for a range returns, a later request for the same range issues
  no network call and shows the stored series.
\<close>

lemma range_cache_second_request:
  assumes "fst (loadAndRenderDetailRange b lt k e label w) = Inr ()"
  shows "loadAndRenderDetailRange b lt k e label (snd (loadAndRenderDetailRange b lt k e label w)) =
           (Inr (), snd (loadAndRenderDetailRange b lt k e label w))"
proof -
  let ?w1 = "snd (loadAndRenderDetailRange b lt k e label w)"
  obtain c ps where c: "internal_pricesByRange ?w1 = Some c" "c (toUpperCase b label) = Some ps"
    and shown: "detail_shown ?w1 = Some (toUpperCase b label, ps)"
    using range_cache_filled [OF assms] by blast
  have "?w1\<lparr>detail_shown := Some (toUpperCase b label, ps)\<rparr> = ?w1"
    using shown by simp
  then show ?thesis
    using range_cache_hit [OF c] by simp
qed

text \<open>
  C4. The claim fails on the code: when the first request's \<open>fetch\<close> rejects, the
  rejection leaves \<open>loadAndRenderDetailRange\<close> before anything is stored, and the second
  request for the same entity and range issues a second network call.
\<close>

theorem range_cache_refetches_after_rejection:
  "fst (loadAndRenderDetailRange b lt (JStr ''BTC'') (JStr ''BTC'') ''1Y'' (fresh_world flaky))
     = Inl NetworkError
   \<and> fst (loadAndRenderDetailRange b lt (JStr ''BTC'') (JStr ''BTC'') ''1Y''
            (snd (loadAndRenderDetailRange b lt (JStr ''BTC'') (JStr ''BTC'') ''1Y'' (fresh_world flaky))))
     = Inr ()
   \<and> requests (network (snd (loadAndRenderDetailRange b lt (JStr ''BTC'') (JStr ''BTC'') ''1Y''
            (snd (loadAndRenderDetailRange b lt (JStr ''BTC'') (JStr ''BTC'') ''1Y'' (fresh_world flaky))))))
     = [PricesReq (JStr ''BTC'') (Some (JStr ''1y'')), PricesReq (JStr ''BTC'') (Some (JStr ''1y''))]"
  by (simp add: loadAndRenderDetailRange_def fresh_world_def flaky_def fetchPrices_def getJson_def
      fetch_def rangeLabelToTimeframeParam_def toUpperCase_def upper_char_def is_ascii_def
      sort_by_date_def js_sort_def Let_def)

section \<open>Properties of the formatters\<close>



















section \<open>Properties of the top-coins snapshot\<close>

lemma setState_state:
  "state (snd (setState (PObject p) st)) = object_assign (state st) p"
  by (simp add: Let_def notify_frame)

lemma topCoins_page_patch [simp]:
  "topCoins (object_assign s (page_patch cs tot)) = topCoins s"
  by (simp add: object_assign_def page_patch_def empty_patch_def or_else_def)

lemma topCoins_top_patch [simp]:
  "topCoins (object_assign s (empty_patch\<lparr>p_topCoins := Some cs\<rparr>)) = cs"
  by (simp add: object_assign_def empty_patch_def or_else_def)

lemma loadCoinsPage_topCoins:
  "topCoins (state (app_store (loadCoinsPage b page psize w))) =
     (if topCoins (state (app_store w)) \<noteq> [] then topCoins (state (app_store w))
      else if page = Fin 1
           then (case fetched b page psize w of Inr (cs, tot) \<Rightarrow> cs | Inl e \<Rightarrow> [])
           else [])"
  by (auto simp add: loadCoinsPage_def load_failed_def fetched_def Let_def setState_state
      simp del: setState.simps split: prod.splits sum.splits)

lemma rank_number:
  "rank_ok c \<Longrightarrow> to_number (num_of_text b) (rank_or_max c) = Fin (rank_key c)"
  by (auto simp add: rank_ok_def rank_key_def rank_or_max_def nullish_or_def
      MAX_SAFE_INTEGER_def split: jsval.splits jsnum.splits)

lemma rank_before_key:
  "rank_ok x \<Longrightarrow> rank_ok y \<Longrightarrow> rank_before b x y = (rank_key x < rank_key y)"
  by (simp add: rank_before_def rank_number js_sub_def)

lemma js_insert_insort:
  "\<forall>y \<in> set ys. before y x = (key y < key x) \<Longrightarrow> js_insert before x ys = insort_key key x ys"
  by (induction ys) auto

lemma js_sort_sort_key:
  "\<forall>x \<in> set xs. \<forall>y \<in> set xs. before y x = (key y < key x)
   \<Longrightarrow> js_sort before xs = sort_key key xs"
proof (induction xs)
  case Nil
  then show ?case by (simp add: js_sort_def)
next
  case (Cons a xs)
  have IH: "js_sort before xs = sort_key key xs"
    using Cons by simp
  have "\<forall>y \<in> set (sort_key key xs). before y a = (key y < key a)"
    using Cons.prems by simp
  then show ?case
    using IH js_insert_insort [of "sort_key key xs" before a key]
    by (simp add: js_sort_def sort_key_def)
qed

lemma top_five_sorted:
  assumes "\<forall>c \<in> set (top_source s). rank_ok c"
  shows "top_five b s = take 5 (sort_key rank_key (top_source s))"
  using assms js_sort_sort_key [of "top_source s" "rank_before b" rank_key]
  by (simp add: top_five_def rank_before_key)

lemma renderDashboard_store: "app_store (snd (renderDashboard b rnd w)) = app_store w"
  by (auto simp add: renderDashboard_def Let_def getPaginationState_def
      split: sum.splits prod.splits option.splits)

lemma map_result_map:
  "map_result f xs = Inr ys \<Longrightarrow> (\<And>x y. f x = Inr y \<Longrightarrow> g y = h x) \<Longrightarrow> map g ys = map h xs"
  by (induction xs arbitrary: ys) (auto split: sum.splits)

lemma map_snd_enumerate_fun: "map (\<lambda>ic. g (snd ic)) (enumerate n xs) = map g xs"
  by (induction xs arbitrary: n) simp_all

lemma build_card_fields:
  "build_card b draw c = Inr k \<Longrightarrow>
     detailSymbol b c = Inr (card_symbol k) \<and> formatPrice b (price c) = Inr (card_price k)
     \<and> card_listeners k = [OpenCoin (card_symbol k)]"
  by (auto simp add: build_card_def split: sum.splits)

lemma renderTopCards_shows_top_five:
  assumes "renderTopCards b rnd s d = Inr d'" and "has_top_cards d"
  shows "map (\<lambda>k. Inr (card_symbol k)) (top_cards d') = map (detailSymbol b) (top_five b s)"
proof (cases "top_source s = []")
  case True
  then show ?thesis
    using assms by (auto simp add: renderTopCards_def top_five_def js_sort_def)
next
  case False
  then obtain cards where
    m: "map_result (\<lambda>(i, c). build_card b (rnd i) c) (enumerate 0 (top_five b s)) = Inr cards"
    and d': "d' = d\<lparr>top_cards := cards\<rparr>"
    using assms by (auto simp add: renderTopCards_def split: sum.splits if_splits)
  have "map (\<lambda>k. Inr (card_symbol k)) cards =
          map (\<lambda>ic. detailSymbol b (snd ic)) (enumerate 0 (top_five b s))"
    using m by (rule map_result_map) (auto dest: build_card_fields)
  also have "\<dots> = map (detailSymbol b) (top_five b s)"
    by (rule map_snd_enumerate_fun)
  finally show ?thesis
    using d' by simp
qed

lemma renderTopCards_cards:
  "renderTopCards b rnd s d =
     (case cards_after b rnd s d of Inl e \<Rightarrow> Inl e | Inr cs \<Rightarrow> Inr (d\<lparr>top_cards := cs\<rparr>))"
  by (simp add: renderTopCards_def cards_after_def split: sum.splits)

lemma build_card_sample:
  "nm \<noteq> [] \<Longrightarrow> build_card sample_builtins draw (sample_coin r nm) = Inr (sample_card draw nm)"
  by (cases nm)
    (simp_all add: build_card_def sample_coin_def sample_card_def formatPrice_def
      formatChange_def detailSymbol_def sparkline_def buildSparklinePoints_def strokeColor_def
      symbolDisplay_def nameDisplay_def String_def Number_def ToNumber_def js_or_def
      js_ge_def js_le_def sample_builtins_def)

lemma top_five_ranked:
  "top_five b ranked_state =
     [sample_coin (JNum (Fin 1)) ''BTC'', sample_coin (JNum (Fin 2)) ''ETH'',
      sample_coin JNull ''XYZ'']"
  by (simp add: ranked_state_def top_source_def top_five_def js_sort_def rank_before_def
      rank_or_max_def sample_coin_def nullish_or_def MAX_SAFE_INTEGER_def js_sub_def)

lemma cards_ranked:
  assumes "topCoins s = topCoins ranked_state" and "has_top_cards d"
  shows "cards_after sample_builtins rnd s d =
     Inr [sample_card (rnd 0) ''BTC'', sample_card (rnd (Suc 0)) ''ETH'',
          sample_card (rnd (Suc (Suc 0))) ''XYZ'']"
proof -
  have src: "top_source s = topCoins ranked_state"
    using assms(1) by (simp add: top_source_def ranked_state_def)
  have five: "top_five sample_builtins s = top_five sample_builtins ranked_state"
    using src by (simp add: top_five_def top_source_def ranked_state_def)
  have quiet: "\<not> sort_throws (topCoins ranked_state)"
    by (simp add: sort_throws_def ranked_state_def rank_or_max_def sample_coin_def nullish_or_def
        MAX_SAFE_INTEGER_def)
  show ?thesis
    using assms(2) src quiet
    by (simp add: cards_after_def five top_five_ranked enumerate_eq_zip build_card_sample)
       (simp add: ranked_state_def)
qed

text \<open>
  C3, as the code has it. A call of \<open>loadCoinsPage\<close> leaves a non-empty \<open>topCoins\<close> as it
  is, for every page and every outcome of the fetch; while \<open>topCoins\<close> is empty, a load of
  page 1 whose fetch returns sets it to the fetched entries (to the empty list again when
  the page is empty), and any other load leaves it empty. The render does not write the
  store. For entries whose rank is a finite number or missing, the cards are the first
  five of \<open>topCoins\<close> in ascending order of the rank, ties in their original order, a
  missing rank counting as \<open>Number.MAX_SAFE_INTEGER\<close>; the cards shown are those entries,
  each under the symbol its detail link is built from.
\<close>

theorem topCoins_snapshot:
  "topCoins (state (app_store (loadCoinsPage b page psize w))) =
     (if topCoins (state (app_store w)) \<noteq> [] then topCoins (state (app_store w))
      else if page = Fin 1
           then (case fetched b page psize w of Inr (cs, tot) \<Rightarrow> cs | Inl e \<Rightarrow> [])
           else [])
   \<and> app_store (snd (renderDashboard b rnd w)) = app_store w
   \<and> ((\<forall>c \<in> set (topCoins s). rank_ok c) \<and> topCoins s \<noteq> [] \<longrightarrow>
        top_five b s = take 5 (sort_key rank_key (topCoins s))
        \<and> sorted (map rank_key (top_five b s)))
   \<and> (renderTopCards b rnd s d = Inr d' \<and> has_top_cards d \<longrightarrow>
        map (\<lambda>k. Inr (card_symbol k)) (top_cards d') = map (detailSymbol b) (top_five b s))"
proof -
  have "top_five b s = take 5 (sort_key rank_key (topCoins s))
        \<and> sorted (map rank_key (top_five b s))"
    if "\<forall>c \<in> set (topCoins s). rank_ok c" and "topCoins s \<noteq> []"
  proof -
    have src: "top_source s = topCoins s"
      using that by (simp add: top_source_def)
    have eq: "top_five b s = take 5 (sort_key rank_key (topCoins s))"
      using top_five_sorted [of s b] that src by simp
    have "sorted (take 5 (map rank_key (sort_key rank_key (topCoins s))))"
      by (rule sorted_wrt_take) simp
    then show ?thesis
      using eq by (simp add: take_map)
  qed
  then show ?thesis
    using loadCoinsPage_topCoins [of b page psize w] renderDashboard_store [of b rnd w]
      renderTopCards_shows_top_five [of b rnd s d d']
    by blast
qed

theorem topCoins_snapshot_witness:
  "topCoins (state (app_store (ranked_world (answers (JArr [btc_raw]))))) \<noteq> []
   \<and> topCoins (state (app_store (loadCoinsPage sample_builtins (Fin 1) (Fin 50)
         (ranked_world (answers (JArr [btc_raw])))))) = topCoins ranked_state
   \<and> rank_ok (sample_coin (JNum (Fin 2)) ''ETH'') \<and> rank_ok (sample_coin JNull ''XYZ'')
   \<and> rank_ok (sample_coin (JNum (Fin 1)) ''BTC'')
   \<and> top_five sample_builtins ranked_state =
       [sample_coin (JNum (Fin 1)) ''BTC'', sample_coin (JNum (Fin 2)) ''ETH'',
        sample_coin JNull ''XYZ'']
   \<and> has_top_cards blank_dom
   \<and> map card_symbol (top_cards (projr (renderTopCards sample_builtins (\<lambda>i j. 1 / 2)
         ranked_state blank_dom))) = [''BTC'', ''ETH'', ''XYZ'']"
proof -
  let ?w = "ranked_world (answers (JArr [btc_raw]))"
  let ?d' = "projr (renderTopCards sample_builtins (\<lambda>i j. 1 / 2) ranked_state blank_dom)"
  have r: "renderTopCards sample_builtins (\<lambda>i j. 1 / 2) ranked_state blank_dom = Inr ?d'"
    by (simp add: renderTopCards_cards cards_ranked blank_dom_def)
  have ok: "\<forall>c \<in> set (topCoins ranked_state). rank_ok c"
    by (simp add: ranked_state_def rank_ok_def sample_coin_def)
  have oks: "rank_ok (sample_coin (JNum (Fin 2)) ''ETH'')" "rank_ok (sample_coin JNull ''XYZ'')"
    "rank_ok (sample_coin (JNum (Fin 1)) ''BTC'')"
    by (simp_all add: rank_ok_def sample_coin_def)
  have ne: "topCoins ranked_state \<noteq> []"
    by (simp add: ranked_state_def)
  have st: "topCoins (state (app_store ?w)) = topCoins ranked_state"
    by (simp add: ranked_world_def fresh_world_def)
  have dom: "has_top_cards blank_dom"
    by (simp add: blank_dom_def)
  have sorted5: "take 5 (sort_key rank_key (topCoins ranked_state)) =
       [sample_coin (JNum (Fin 1)) ''BTC'', sample_coin (JNum (Fin 2)) ''ETH'',
        sample_coin JNull ''XYZ'']"
    by (simp add: ranked_state_def rank_key_def sample_coin_def)
  have links: "map (detailSymbol sample_builtins)
        [sample_coin (JNum (Fin 1)) ''BTC'', sample_coin (JNum (Fin 2)) ''ETH'',
         sample_coin JNull ''XYZ''] = map Inr [''BTC'', ''ETH'', ''XYZ'']"
    by (simp add: detailSymbol_def String_def sample_coin_def js_or_def sample_builtins_def)
  note t = topCoins_snapshot [of sample_builtins "Fin 1" "Fin 50" ?w "\<lambda>i j. 1 / 2"
      ranked_state blank_dom ?d']
  have kept: "topCoins (state (app_store (loadCoinsPage sample_builtins (Fin 1) (Fin 50) ?w)))
      = topCoins ranked_state"
    using t st ne by simp
  have five: "top_five sample_builtins ranked_state =
       [sample_coin (JNum (Fin 1)) ''BTC'', sample_coin (JNum (Fin 2)) ''ETH'',
        sample_coin JNull ''XYZ'']"
    using t ok ne sorted5 by simp
  have "map (\<lambda>k. Inr (card_symbol k)) (top_cards ?d')
      = map (detailSymbol sample_builtins) (top_five sample_builtins ranked_state)"
    using t r dom by blast
  then have "map (Inr :: string \<Rightarrow> js_error + string) (map card_symbol (top_cards ?d'))
      = map Inr [''BTC'', ''ETH'', ''XYZ'']"
    using five links by (simp add: comp_def)
  then have shown: "map card_symbol (top_cards ?d') = [''BTC'', ''ETH'', ''XYZ'']"
    by (simp only: inj_map_eq_map [OF inj_Inr])
  show ?thesis
    using st ne kept oks five dom shown by simp
qed

text \<open>
  The claim as stated fails twice. The first page-1 fetch of a session can succeed with
  an empty list: \<open>topCoins\<close> stays empty and the next page-1 load captures again, so a
  later navigation changes it. And a missing rank sorts before a rank above
  \<open>Number.MAX_SAFE_INTEGER\<close>, not last.
\<close>

theorem topCoins_recaptured:
  "fetched sample_builtins (Fin 1) (Fin 50) (fresh_world late) = Inr ([], JNum (Fin 0))
   \<and> topCoins (state (app_store (loadCoinsPage sample_builtins (Fin 1) (Fin 50) (fresh_world late)))) = []
   \<and> topCoins (state (app_store (loadCoinsPage sample_builtins (Fin 1) (Fin 50)
        (loadCoinsPage sample_builtins (Fin 1) (Fin 50) (fresh_world late)))))
       = [\<lparr>coin_id = JNum (Fin 1), rank = JNum (Fin 1), symbol = JStr ''BTC'',
           fullSymbol = JStr ''BTCUSDT'', name = JStr ''BTC'', price = JNum (Fin 50000),
           change = JNum (Fin 2), vol = JNull, mcap = JNull\<rparr>]
   \<and> mapSymbolToCoin (num_of_text sample_builtins) btc_raw
       = Inr \<lparr>coin_id = JNum (Fin 1), rank = JNum (Fin 1), symbol = JStr ''BTC'',
              fullSymbol = JStr ''BTCUSDT'', name = JStr ''BTC'', price = JNum (Fin 50000),
              change = JNum (Fin 2), vol = JNull, mcap = JNull\<rparr>
   \<and> top_five sample_builtins
        (initial_state\<lparr>topCoins := [sample_coin (JNum (Fin 9007199254740992)) ''BBB'',
                                   sample_coin JNull ''AAA'']\<rparr>)
       = [sample_coin JNull ''AAA'', sample_coin (JNum (Fin 9007199254740992)) ''BBB'']"
  by (simp add: fetched_def loadCoinsPage_def renderTicker_def fresh_world_def late_def
      initial_state_def
      fetchSymbolsPage_def getJson_def fetch_def normalizeSymbolsResponse_def num_or_def
      js_trim_def Let_def page_patch_def empty_patch_def object_assign_def or_else_def
      top_five_def top_source_def js_sort_def rank_before_def rank_or_max_def sample_coin_def
      nullish_or_def MAX_SAFE_INTEGER_def js_sub_def mapSymbolToCoin_def finite_or_null_def
      ToNumber_def btc_raw_def)

section \<open>Properties of the render\<close>

lemma clamp_page_idem: "clamp_page (clamp_page cp tp) tp = clamp_page cp tp"
  by (cases cp; cases tp) (auto simp add: clamp_page_def js_min_def js_max_def)

lemma cards_after_content:
  "has_top_cards d' = has_top_cards d \<Longrightarrow> has_top_cards d \<or> top_cards d' = top_cards d
   \<Longrightarrow> cards_after b rnd s d' = cards_after b rnd s d"
  by (auto simp add: cards_after_def)

lemma set_pagination_flags:
  "has_tbody (set_pagination x d) = has_tbody d"
  "has_top_cards (set_pagination x d) = has_top_cards d"
  "has_no_results (set_pagination x d) = has_no_results d"
  "has_panel (set_pagination x d) = has_panel d"
  "has_ticker (set_pagination x d) = has_ticker d"
  "top_cards (set_pagination x d) = top_cards d"
  "table_rows (set_pagination x d) = table_rows d"
  "no_results_shown (set_pagination x d) = no_results_shown d"
  by (simp_all add: set_pagination_def ensurePaginationContainer_def split: option.splits)

lemma show_no_results_flags:
  "has_tbody (show_no_results v d) = has_tbody d"
  "has_top_cards (show_no_results v d) = has_top_cards d"
  "has_no_results (show_no_results v d) = has_no_results d"
  "has_panel (show_no_results v d) = has_panel d"
  "has_ticker (show_no_results v d) = has_ticker d"
  "top_cards (show_no_results v d) = top_cards d"
  "table_rows (show_no_results v d) = table_rows d"
  "pag_container (show_no_results v d) = pag_container d"
  by (simp_all add: show_no_results_def)

text \<open>Writing the content twice is writing it once.\<close>

lemma fill_absorb:
  "set_pagination x (show_no_results v
      ((set_pagination x (show_no_results v (d\<lparr>top_cards := cs, table_rows := rows\<rparr>)))
         \<lparr>top_cards := cs', table_rows := rows\<rparr>))
   = set_pagination x (show_no_results v (d\<lparr>top_cards := cs', table_rows := rows\<rparr>))"
  by (simp add: set_pagination_def ensurePaginationContainer_def show_no_results_def
      split: option.splits)

lemma partial_absorb:
  "show_no_results v ((show_no_results v (d\<lparr>top_cards := cs\<rparr>))\<lparr>top_cards := cs'\<rparr>)
   = show_no_results v (d\<lparr>top_cards := cs'\<rparr>)"
  by (simp add: show_no_results_def)


lemma clamped_idem: "clamped b s (clamped b s p) = clamped b s p"
  by (simp add: clamped_def clamp_page_idem)

lemma clamped_pageSize: "pageSize (clamped b s p) = pageSize p"
  by (simp add: clamped_def)

lemma renderDashboard_steps:
  "renderDashboard b rnd w =
     (if \<not> has_tbody (page_dom w) then (Inr (), w)
      else case cards_after b rnd (state (app_store w)) (page_dom w) of
        Inl e \<Rightarrow> (Inl e, w)
      | Inr cs \<Rightarrow>
          if filteredCoins (state (app_store w)) = []
          then (Inr (),
                w\<lparr>page_dom := set_pagination None
                     (show_no_results True ((page_dom w)\<lparr>top_cards := cs, table_rows := []\<rparr>))\<rparr>)
          else (case rows_for b (state (app_store w)) (clamped b (state (app_store w)) (pagination_of w)) of
                  Inl e \<Rightarrow>
                    (Inl e,
                     w\<lparr>page_dom := show_no_results False ((page_dom w)\<lparr>top_cards := cs\<rparr>),
                       internal_pagination :=
                         Some (clamped b (state (app_store w)) (pagination_of w))\<rparr>)
                | Inr rows \<Rightarrow>
                    (Inr (),
                     w\<lparr>page_dom :=
                         set_pagination
                           (Some (bar_for b (state (app_store w))
                                    (clamped b (state (app_store w)) (pagination_of w))))
                           (show_no_results False
                              ((page_dom w)\<lparr>top_cards := cs, table_rows := rows\<rparr>)),
                       internal_pagination :=
                         Some (clamped b (state (app_store w)) (pagination_of w))\<rparr>)))"
proof -
  obtain st n pg pr ds d where w: "w = \<lparr>app_store = st, network = n, internal_pagination = pg,
      internal_pricesByRange = pr, detail_shown = ds, page_dom = d\<rparr>"
    by (cases w) simp
  obtain f1 f2 f3 f4 f5 tc tr nr pc where d: "d = \<lparr>has_tbody = f1, has_top_cards = f2,
      has_no_results = f3, has_panel = f4, has_ticker = f5, top_cards = tc, table_rows = tr,
      no_results_shown = nr, pag_container = pc\<rparr>"
    by (cases d) simp
  show ?thesis
    unfolding w d
    by (cases pg; cases f3)
      (simp_all add: renderDashboard_def renderTopCards_cards pagination_of_def
        getPaginationState_def clamped_def rows_for_def bar_for_def show_no_results_def Let_def
        split: sum.splits)
qed


lemma build_card_draws:
  "rel_sum (=) (\<lambda>k k'. erase_card k = erase_card k') (build_card b draw c) (build_card b draw' c)"
  by (simp add: build_card_def sparkline_def buildSparklinePoints_def erase_card_def
      split: sum.splits)

lemma map_result_rel:
  "(\<And>x. x \<in> set xs \<Longrightarrow> rel_sum (=) (\<lambda>k k'. E k = E k') (f x) (g x))
   \<Longrightarrow> rel_sum (=) (\<lambda>ks ks'. map E ks = map E ks') (map_result f xs) (map_result g xs)"
proof (induction xs)
  case Nil
  show ?case by simp
next
  case (Cons x xs)
  have hd: "rel_sum (=) (\<lambda>k k'. E k = E k') (f x) (g x)"
    using Cons.prems by simp
  have tl: "rel_sum (=) (\<lambda>ks ks'. map E ks = map E ks') (map_result f xs) (map_result g xs)"
    using Cons by simp
  show ?case
    using hd tl
    by (cases "f x"; cases "g x"; cases "map_result f xs"; cases "map_result g xs") simp_all
qed

lemma cards_after_draws:
  "rel_sum (=) (\<lambda>cs cs'. map erase_card cs = map erase_card cs')
     (cards_after b rnd s d) (cards_after b rnd' s d)"
proof -
  have "rel_sum (=) (\<lambda>cs cs'. map erase_card cs = map erase_card cs')
          (map_result (\<lambda>(i, c). build_card b (rnd i) c) xs)
          (map_result (\<lambda>(i, c). build_card b (rnd' i) c) xs)" for xs
    by (rule map_result_rel) (auto simp add: build_card_draws)
  then show ?thesis
    by (simp add: cards_after_def)
qed

lemma cards_after_no_container:
  "cards_after b rnd s d = Inr cs \<Longrightarrow> \<not> has_top_cards d \<Longrightarrow> cs = top_cards d"
  by (simp add: cards_after_def)

lemma cards_after_Inr_draws:
  assumes "cards_after b rnd s d = Inr cs"
  obtains cs' where "cards_after b rnd' s d = Inr cs'" "map erase_card cs = map erase_card cs'"
  using assms cards_after_draws [of b rnd s d rnd']
  by (cases "cards_after b rnd' s d") simp_all

lemma cards_after_Inl_draws:
  assumes "cards_after b rnd s d = Inl e"
  shows "cards_after b rnd' s d = Inl e"
  using assms cards_after_draws [of b rnd s d rnd']
  by (cases "cards_after b rnd' s d") simp_all


lemma render_absorbs:
  "renderDashboard b rnd' (snd (renderDashboard b rnd w)) = renderDashboard b rnd' w"
proof (cases "has_tbody (page_dom w)")
  case False
  then show ?thesis
    by (simp add: renderDashboard_steps)
next
  case tb: True
  let ?s = "state (app_store w)"
  let ?d = "page_dom w"
  let ?p = "clamped b ?s (pagination_of w)"
  show ?thesis
  proof (cases "cards_after b rnd ?s ?d")
    case (Inl e)
    then show ?thesis
      using tb by (simp add: renderDashboard_steps [of b rnd w])
  next
    case (Inr cs)
    have keep: "has_top_cards ?d \<or> cs = top_cards ?d"
      using cards_after_no_container [OF Inr] by blast
    obtain cs' where c': "cards_after b rnd' ?s ?d = Inr cs'"
      using cards_after_Inr_draws [OF Inr] by blast
    note cs = Inr
    show ?thesis
    proof (cases "filteredCoins ?s = []")
      case True
      let ?D = "set_pagination None (show_no_results True (?d\<lparr>top_cards := cs, table_rows := []\<rparr>))"
      have w1: "snd (renderDashboard b rnd w) = w\<lparr>page_dom := ?D\<rparr>"
        using tb Inr True by (simp add: renderDashboard_steps [of b rnd w])
      have c: "cards_after b rnd' ?s ?D = cards_after b rnd' ?s ?d"
        using keep
        by (intro cards_after_content) (auto simp add: set_pagination_flags show_no_results_flags)
      show ?thesis
        using tb True
        by (simp add: w1 c c' renderDashboard_steps [of b rnd'] set_pagination_flags
            show_no_results_flags fill_absorb)
    next
      case False
      show ?thesis
      proof (cases "rows_for b ?s ?p")
        case (Inl e)
        let ?D = "show_no_results False (?d\<lparr>top_cards := cs\<rparr>)"
        have w1: "snd (renderDashboard b rnd w) = w\<lparr>page_dom := ?D, internal_pagination := Some ?p\<rparr>"
          using tb cs False Inl by (simp add: renderDashboard_steps [of b rnd w])
        have c: "cards_after b rnd' ?s ?D = cards_after b rnd' ?s ?d"
          using keep
          by (intro cards_after_content) (auto simp add: show_no_results_flags)
        have p: "pagination_of (w\<lparr>page_dom := ?D, internal_pagination := Some ?p\<rparr>) = ?p"
          by (simp add: pagination_of_def getPaginationState_def)
        show ?thesis
          using tb False Inl
          by (simp add: w1 c c' p clamped_idem renderDashboard_steps [of b rnd']
              show_no_results_flags partial_absorb)
      next
        case (Inr rows)
        let ?D = "set_pagination (Some (bar_for b ?s ?p))
                    (show_no_results False (?d\<lparr>top_cards := cs, table_rows := rows\<rparr>))"
        have w1: "snd (renderDashboard b rnd w) = w\<lparr>page_dom := ?D, internal_pagination := Some ?p\<rparr>"
          using tb cs False Inr
          by (simp add: renderDashboard_steps [of b rnd w])
        have c: "cards_after b rnd' ?s ?D = cards_after b rnd' ?s ?d"
          using keep
          by (intro cards_after_content) (auto simp add: set_pagination_flags show_no_results_flags)
        have p: "pagination_of (w\<lparr>page_dom := ?D, internal_pagination := Some ?p\<rparr>) = ?p"
          by (simp add: pagination_of_def getPaginationState_def)
        show ?thesis
          using tb False Inr
          by (simp add: w1 c c' p clamped_idem renderDashboard_steps [of b rnd']
              set_pagination_flags show_no_results_flags fill_absorb)
      qed
    qed
  qed
qed

lemma points_steady: "points_for (Fin 0) (steady 0) = Some (replicate 20 100)"
  by (simp add: points_for_def num_or_def steady_def upt_rec_numeral numeral_eq_Suc)

lemma points_dipped: "points_for (Fin 0) (dipped 0) = Some (98 # replicate 19 100)"
  by (simp add: points_for_def num_or_def dipped_def upt_rec_numeral numeral_eq_Suc)

lemma path_second:
  "buildSparklinePath (p # q # ps) =
     Some (map (\<lambda>(i, r). (of_nat i / of_nat (Suc (length ps)) * 100,
                 32 - (r - fold min (q # ps) p) /
                   (if fold max (q # ps) p - fold min (q # ps) p = 0 then 1
                    else fold max (q # ps) p - fold min (q # ps) p) * 32))
             (enumerate 0 (p # q # ps)))"
  by (simp add: buildSparklinePath_def Let_def)

lemma fold_min_replicate: "(min (x::rat) ^^ n) y = (if n = 0 then y else min x y)"
  by (induction n) (auto simp add: min_def)

lemma fold_max_replicate: "(max (x::rat) ^^ n) y = (if n = 0 then y else max x y)"
  by (induction n) (auto simp add: max_def)

lemma path_second_steady:
  "map_option (\<lambda>xs. snd (xs ! 1)) (path_for (points_for (Fin 0) (steady 0))) = Some 32"
proof -
  have r: "replicate 20 (100::rat) = 100 # 100 # replicate 18 100"
    by (simp add: numeral_eq_Suc)
  show ?thesis
    unfolding path_for_def points_steady r option.case path_second
    by (simp add: fold_min_replicate fold_max_replicate)
qed

lemma path_second_dipped:
  "map_option (\<lambda>xs. snd (xs ! 1)) (path_for (points_for (Fin 0) (dipped 0))) = Some 0"
proof -
  have r: "replicate 19 (100::rat) = 100 # replicate 18 100"
    by (simp add: numeral_eq_Suc)
  show ?thesis
    unfolding path_for_def points_dipped r option.case path_second
    by (simp add: fold_min_replicate fold_max_replicate)
qed

lemma sparkline_sample:
  "sparkline sample_builtins JNull draw = Inr (path_for (points_for (Fin 0) draw))"
  by (simp add: sparkline_def buildSparklinePoints_def Number_def ToNumber_def)

lemma sparkline_differs:
  "sparkline sample_builtins JNull (steady 0) \<noteq> sparkline sample_builtins JNull (dipped 0)"
  using path_second_steady path_second_dipped by (auto simp add: sparkline_sample)


lemma fill_top_cards:
  "(set_pagination x (show_no_results v (d\<lparr>top_cards := cs, table_rows := rows\<rparr>)))
      \<lparr>top_cards := t\<rparr>
   = set_pagination x (show_no_results v (d\<lparr>top_cards := t, table_rows := rows\<rparr>))"
  by (simp add: set_pagination_def ensurePaginationContainer_def show_no_results_def
      split: option.splits)

lemma partial_top_cards:
  "(show_no_results v (d\<lparr>top_cards := cs\<rparr>))\<lparr>top_cards := t\<rparr>
   = show_no_results v (d\<lparr>top_cards := t\<rparr>)"
  by (simp add: show_no_results_def)

lemma render_draws:
  "fst (renderDashboard b rnd' w) = fst (renderDashboard b rnd w)
   \<and> erase_paths (snd (renderDashboard b rnd' w)) = erase_paths (snd (renderDashboard b rnd w))"
proof (cases "cards_after b rnd (state (app_store w)) (page_dom w)")
  case (Inl e)
  then show ?thesis
    using cards_after_Inl_draws [OF Inl, of rnd']
    by (simp add: renderDashboard_steps)
next
  case (Inr cs)
  obtain cs' where c': "cards_after b rnd' (state (app_store w)) (page_dom w) = Inr cs'"
    and e: "map erase_card cs = map erase_card cs'"
    using cards_after_Inr_draws [OF Inr] by blast
  show ?thesis
    using Inr c' e
    by (simp add: renderDashboard_steps erase_paths_def set_pagination_flags
        show_no_results_flags fill_top_cards partial_top_cards split: sum.splits)
qed

lemma render_top_cards:
  "has_tbody (page_dom w) \<Longrightarrow> cards_after b rnd (state (app_store w)) (page_dom w) = Inr cs
   \<Longrightarrow> top_cards (page_dom (snd (renderDashboard b rnd w))) = cs"
  by (simp add: renderDashboard_steps set_pagination_flags show_no_results_flags
      split: sum.splits)

lemma map_result_all:
  "map_result f xs = Inr ys \<Longrightarrow> (\<And>x y. f x = Inr y \<Longrightarrow> P y) \<Longrightarrow> \<forall>y \<in> set ys. P y"
  by (induction xs arbitrary: ys) (auto split: sum.splits)

lemma card_listeners_one:
  assumes "cards_after b rnd s d = Inr cs" and "has_top_cards d"
  shows "\<forall>c \<in> set cs. length (card_listeners c) = 1"
proof (cases "top_source s = []")
  case True
  then show ?thesis using assms by (simp add: cards_after_def)
next
  case False
  then have "map_result (\<lambda>(i, c). build_card b (rnd i) c) (enumerate 0 (top_five b s)) = Inr cs"
    using assms by (simp add: cards_after_def split: if_splits)
  then show ?thesis
    by (rule map_result_all) (auto dest: build_card_fields)
qed

lemma row_listeners_one:
  assumes "rows_for b s p = Inr rows"
  shows "\<forall>r \<in> set rows. length (row_listeners r) = 1"
  using assms unfolding rows_for_def
  by (rule map_result_all) (auto simp add: build_row_def split: sum.splits)

lemma set_pagination_container:
  "pag_container (set_pagination x d) = (if pag_container d = None \<and> \<not> has_panel d then None else Some x)"
  by (simp add: set_pagination_def ensurePaginationContainer_def split: option.splits)

lemma render_listeners:
  assumes "has_tbody (page_dom w)" and "fst (renderDashboard b rnd w) = Inr ()"
  shows "(has_top_cards (page_dom w) \<longrightarrow>
            (\<forall>c \<in> set (top_cards (page_dom (snd (renderDashboard b rnd w)))).
               length (card_listeners c) = 1))
       \<and> (\<forall>r \<in> set (table_rows (page_dom (snd (renderDashboard b rnd w)))).
             length (row_listeners r) = 1)
       \<and> bar_listeners_one (pag_container (page_dom (snd (renderDashboard b rnd w))))"
proof (cases "cards_after b rnd (state (app_store w)) (page_dom w)")
  case (Inl e)
  then show ?thesis
    using assms by (simp add: renderDashboard_steps)
next
  case (Inr cs)
  note cs = Inr
  have cards: "has_top_cards (page_dom w) \<longrightarrow> (\<forall>c \<in> set cs. length (card_listeners c) = 1)"
    using card_listeners_one [OF cs] by blast
  show ?thesis
  proof (cases "filteredCoins (state (app_store w)) = []")
    case True
    then show ?thesis
      using assms cs cards
      by (simp add: renderDashboard_steps set_pagination_flags show_no_results_flags
          set_pagination_container bar_listeners_one_def)
  next
    case False
    show ?thesis
    proof (cases "rows_for b (state (app_store w)) (clamped b (state (app_store w)) (pagination_of w))")
      case (Inl e)
      then show ?thesis
        using assms cs False by (simp add: renderDashboard_steps)
    next
      case (Inr rows)
      have "\<forall>r \<in> set rows. length (row_listeners r) = 1"
        using row_listeners_one [OF Inr] .
      then show ?thesis
        using assms cs cards False Inr
        by (simp add: renderDashboard_steps set_pagination_flags show_no_results_flags
            set_pagination_container bar_listeners_one_def bar_for_def build_bar_def Let_def)
    qed
  qed
qed


text \<open>
  C9, as the code has it. A render after a render, with whatever draws, leaves exactly
  what a single render with those draws leaves on the original page: nothing
  accumulates. The way the render ends, and everything it shows and writes other than
  the sparkline paths of the cards, is the same for all draws. After a render that
  completes, every card, every row button and every control of the pagination bar
  carries exactly one listener.
\<close>

theorem render_repeatable:
  "renderDashboard b rnd' (snd (renderDashboard b rnd w)) = renderDashboard b rnd' w
   \<and> fst (renderDashboard b rnd' w) = fst (renderDashboard b rnd w)
   \<and> erase_paths (snd (renderDashboard b rnd' w)) = erase_paths (snd (renderDashboard b rnd w))
   \<and> (has_tbody (page_dom w) \<and> fst (renderDashboard b rnd w) = Inr () \<longrightarrow>
        (has_top_cards (page_dom w) \<longrightarrow>
           (\<forall>c \<in> set (top_cards (page_dom (snd (renderDashboard b rnd w)))).
              length (card_listeners c) = 1))
        \<and> (\<forall>r \<in> set (table_rows (page_dom (snd (renderDashboard b rnd w)))).
              length (row_listeners r) = 1)
        \<and> bar_listeners_one (pag_container (page_dom (snd (renderDashboard b rnd w)))))"
  using render_absorbs [of b rnd' rnd w] render_draws [of b rnd' w rnd]
    render_listeners [of w b rnd]
  by blast

lemma paged_cards:
  "cards_after sample_builtins rnd (state (app_store (paged_world cp))) (page_dom (paged_world cp))
     = Inr [sample_card (rnd 0) ''BTC'', sample_card (rnd (Suc 0)) ''ETH'',
            sample_card (rnd (Suc (Suc 0))) ''XYZ'']"
  by (rule cards_ranked) (simp_all add: paged_world_def fresh_world_def blank_dom_def)

lemma paged_flags:
  "has_tbody (page_dom (paged_world cp))" "has_top_cards (page_dom (paged_world cp))"
  "filteredCoins (state (app_store (paged_world cp))) \<noteq> []"
  by (simp_all add: paged_world_def fresh_world_def blank_dom_def ranked_state_def)

lemma paged_top_cards:
  "map (\<lambda>k. Inr (card_path k))
       (top_cards (page_dom (snd (renderDashboard sample_builtins rnd (paged_world cp)))))
     = [sparkline sample_builtins JNull (rnd 0), sparkline sample_builtins JNull (rnd (Suc 0)),
        sparkline sample_builtins JNull (rnd (Suc (Suc 0)))]"
  using render_top_cards [OF paged_flags(1) paged_cards]
  by (simp add: sparkline_sample sample_card_def)

lemma build_row_sample:
  "nm \<noteq> [] \<Longrightarrow>
   build_row sample_builtins start (i, sample_coin r nm) =
     Inr (sample_row (js_add (js_add start (Fin (of_nat i))) (Fin 1)) nm)"
  by (cases nm)
    (simp_all add: build_row_def sample_coin_def sample_row_def formatPrice_def
      formatChange_def detailSymbol_def symbolDisplay_def nameDisplay_def volText_def
      String_def js_or_def sample_builtins_def)

lemma paged_rows:
  "\<exists>rows. rows_for sample_builtins (state (app_store (paged_world cp))) p = Inr rows"
  by (simp add: rows_for_def paged_world_def fresh_world_def ranked_state_def enumerate_eq_zip
      build_row_sample)

lemma paged_render_ok:
  "fst (renderDashboard sample_builtins rnd (paged_world cp)) = Inr ()"
proof -
  obtain rows where rows: "rows_for sample_builtins (state (app_store (paged_world cp)))
      (clamped sample_builtins (state (app_store (paged_world cp))) (pagination_of (paged_world cp)))
      = Inr rows"
    using paged_rows by blast
  show ?thesis
    using paged_cards [of rnd cp] rows paged_flags [of cp] by (simp add: renderDashboard_steps)
qed

theorem render_repeatable_witness:
  "has_tbody (page_dom (paged_world (Fin 1))) \<and> has_top_cards (page_dom (paged_world (Fin 1)))
   \<and> fst (renderDashboard sample_builtins steady (paged_world (Fin 1))) = Inr ()
   \<and> renderDashboard sample_builtins dipped
        (snd (renderDashboard sample_builtins steady (paged_world (Fin 1))))
       = renderDashboard sample_builtins dipped (paged_world (Fin 1))
   \<and> erase_paths (snd (renderDashboard sample_builtins dipped (paged_world (Fin 1))))
       = erase_paths (snd (renderDashboard sample_builtins steady (paged_world (Fin 1))))
   \<and> map (\<lambda>c. length (card_listeners c))
         (top_cards (page_dom (snd (renderDashboard sample_builtins steady (paged_world (Fin 1))))))
       = [1, 1, 1]
   \<and> bar_listeners_one
         (pag_container (page_dom (snd (renderDashboard sample_builtins steady (paged_world (Fin 1))))))"
proof -
  let ?w = "paged_world (Fin 1)"
  let ?cards = "top_cards (page_dom (snd (renderDashboard sample_builtins steady ?w)))"
  have flags: "has_tbody (page_dom ?w)" "has_top_cards (page_dom ?w)"
    by (simp_all add: paged_world_def fresh_world_def blank_dom_def)
  have ok: "fst (renderDashboard sample_builtins steady ?w) = Inr ()"
    by (rule paged_render_ok)
  note t = render_repeatable [of sample_builtins dipped steady ?w]
  have one: "\<forall>c \<in> set ?cards. length (card_listeners c) = 1"
    using t flags ok by blast
  have "length (map (\<lambda>k. (Inr (card_path k) :: js_error + (rat \<times> rat) list option)) ?cards)
      = 3"
    by (simp only: paged_top_cards [of steady "Fin 1"]) simp
  then have "length ?cards = 3"
    by simp
  then obtain c1 c2 c3 where "?cards = [c1, c2, c3]"
    by (auto simp add: length_Suc_conv numeral_3_eq_3)
  then have "map (\<lambda>c. length (card_listeners c)) ?cards = [1, 1, 1]"
    using one by simp
  then show ?thesis
    using t flags ok by blast
qed

text \<open>
  The claim as stated fails: the cards are not the same for two renders of one state,
  because each render draws the jitter of the sparklines from \<open>Math.random\<close> anew.
\<close>

theorem render_output_depends_on_draws:
  "top_cards (page_dom (snd (renderDashboard sample_builtins steady (paged_world (Fin 1)))))
   \<noteq> top_cards (page_dom (snd (renderDashboard sample_builtins dipped (paged_world (Fin 1)))))"
proof
  assume "top_cards (page_dom (snd (renderDashboard sample_builtins steady (paged_world (Fin 1)))))
   = top_cards (page_dom (snd (renderDashboard sample_builtins dipped (paged_world (Fin 1)))))"
  then have "map (\<lambda>k. (Inr (card_path k) :: js_error + (rat \<times> rat) list option))
        (top_cards (page_dom (snd (renderDashboard sample_builtins steady (paged_world (Fin 1))))))
      = map (\<lambda>k. Inr (card_path k))
        (top_cards (page_dom (snd (renderDashboard sample_builtins dipped (paged_world (Fin 1))))))"
    by simp
  then have "sparkline sample_builtins JNull (steady 0) = sparkline sample_builtins JNull (dipped 0)"
    by (simp only: paged_top_cards list.inject)
  then show False
    using sparkline_differs by simp
qed

section \<open>Properties of the pagination\<close>

lemma clamp_page_bounds:
  assumes "cp \<noteq> NaN" and "js_le (Fin 1) tp"
  shows "js_le (Fin 1) (clamp_page cp tp) \<and> js_le (clamp_page cp tp) tp"
  using assms
  by (cases cp; cases tp) (auto simp add: clamp_page_def js_min_def js_max_def js_le_def)

lemma double_div_not_NaN: "tot \<noteq> NaN \<Longrightarrow> k \<noteq> 0 \<Longrightarrow> double_div b tot (Fin k) \<noteq> NaN"
  by (cases tot) (auto simp add: double_div_def)

lemma js_ceil_not_NaN: "a \<noteq> NaN \<Longrightarrow> js_ceil a \<noteq> NaN"
  by (cases a) auto

lemma js_max_one: "a \<noteq> NaN \<Longrightarrow> js_le (Fin 1) (js_max (Fin 1) a)"
  by (cases a) (auto simp add: js_max_def js_le_def)

lemma total_pages_ge_one:
  "tot \<noteq> NaN \<Longrightarrow> k \<noteq> 0 \<Longrightarrow> js_le (Fin 1) (total_pages b tot (Fin k))"
  by (simp add: total_pages_def js_max_one js_ceil_not_NaN double_div_not_NaN)

lemma js_max_one_int: "js_max (Fin 1) (Fin (of_int c)) = Fin (of_int (max 1 c))"
  by (simp add: js_max_def max_def)

lemma total_pages_finite:
  "k \<noteq> 0 \<Longrightarrow> total_pages b (Fin t) (Fin k) = Fin (of_int (max 1 \<lceil>to_double b (t / k)\<rceil>))"
  using js_max_one_int [of "\<lceil>to_double b (t / k)\<rceil>"]
  by (simp add: total_pages_def double_div_def)


lemma page_size_or_default:
  "is_finite n \<Longrightarrow> \<exists>k. k \<noteq> 0 \<and> num_or n (Fin 50) = Fin k"
  by (cases n) (auto simp add: num_or_def)

lemma total_of_not_NaN: "totalCoins s \<noteq> JNum NaN \<Longrightarrow> total_of s \<noteq> NaN"
  by (auto simp add: total_of_def split: jsval.splits)




text \<open>What a render leaves of the pagination state, the store and the network.\<close>

lemma render_done:
  assumes "has_tbody (page_dom w)"
    and "cards_after b rnd (state (app_store w)) (page_dom w) = Inr cs"
    and "filteredCoins (state (app_store w)) \<noteq> []"
    and "rows_for b (state (app_store w)) (clamped b (state (app_store w)) (pagination_of w))
           = Inr rows"
  shows "renderDashboard b rnd w =
     (Inr (),
      w\<lparr>page_dom :=
          set_pagination
            (Some (bar_for b (state (app_store w))
                     (clamped b (state (app_store w)) (pagination_of w))))
            (show_no_results False ((page_dom w)\<lparr>top_cards := cs, table_rows := rows\<rparr>)),
        internal_pagination := Some (clamped b (state (app_store w)) (pagination_of w))\<rparr>)"
  using assms by (simp add: renderDashboard_steps)


lemma render_empty:
  assumes "has_tbody (page_dom w)"
    and "cards_after b rnd (state (app_store w)) (page_dom w) = Inr cs"
    and "filteredCoins (state (app_store w)) = []"
  shows "renderDashboard b rnd w =
     (Inr (),
      w\<lparr>page_dom := set_pagination None
           (show_no_results True ((page_dom w)\<lparr>top_cards := cs, table_rows := []\<rparr>))\<rparr>)"
  using assms by (simp add: renderDashboard_steps)


lemma render_reaches_clamp:
  assumes "has_tbody (page_dom w)"
    and "renderTopCards b rnd (state (app_store w)) (page_dom w) = Inr d1"
    and "filteredCoins (state (app_store w)) \<noteq> []"
  shows "internal_pagination (snd (renderDashboard b rnd w)) =
           Some (clamped b (state (app_store w)) (pagination_of w))"
  using assms
  by (auto simp add: renderDashboard_steps renderTopCards_cards split: sum.splits)

lemma render_empty_page:
  assumes "filteredCoins (state (app_store w)) = []"
  shows "internal_pagination (snd (renderDashboard b rnd w)) = internal_pagination w"
  using assms by (auto simp add: renderDashboard_steps split: sum.splits)

lemma pagination_of_some: "internal_pagination w = Some p \<Longrightarrow> pagination_of w = p"
  by (simp add: pagination_of_def getPaginationState_def)

lemma pagination_of_same:
  "internal_pagination w' = internal_pagination w \<Longrightarrow> pagination_of w' = pagination_of w"
  by (simp add: pagination_of_def getPaginationState_def Let_def split: option.splits)

lemma render_pagination_cases:
  "internal_pagination (snd (renderDashboard b rnd w)) = internal_pagination w
   \<or> internal_pagination (snd (renderDashboard b rnd w)) =
        Some (clamped b (state (app_store w)) (pagination_of w))"
  by (simp add: renderDashboard_steps split: sum.splits)

lemma render_pageSize:
  "pageSize (pagination_of (snd (renderDashboard b rnd w))) = pageSize (pagination_of w)"
  using render_pagination_cases [of b rnd w]
    pagination_of_same [of "snd (renderDashboard b rnd w)" w]
    pagination_of_some [of "snd (renderDashboard b rnd w)"
      "clamped b (state (app_store w)) (pagination_of w)"]
  by (auto simp add: clamped_def)

lemma render_total_pages:
  "state_total_pages b (snd (renderDashboard b rnd w)) = state_total_pages b w"
  by (simp add: state_total_pages_def renderDashboard_store render_pageSize)

lemma state_total_pages_finite:
  assumes "total_of (state (app_store w)) = Fin t"
    and "num_or (pageSize (pagination_of w)) (Fin 50) = Fin k"
  shows "state_total_pages b w = Fin (of_int (max 1 \<lceil>to_double b (t / k)\<rceil>))"
proof -
  have "k \<noteq> 0"
    using assms(2) by (auto simp add: num_or_def split: if_splits)
  then show ?thesis
    using assms by (simp add: state_total_pages_def total_pages_finite)
qed

text \<open>
  C2, as the code has it. Whenever the render reaches its clamping step (the table body
  exists, the cards are built, and the page has entries), the pagination state
  afterwards satisfies \<open>1 \<le> currentPage \<le> totalPages\<close>, where \<open>totalPages\<close> is that of
  the state: \<open>max(1, ceil(total / pageSize))\<close> with the quotient as a double, \<open>total\<close>
  being \<open>totalCoins\<close> when that is a number and the number of entries on the page
  otherwise, and a \<open>pageSize\<close> of 0 counting as 50. A render of a page without entries
  returns before the clamping step and leaves the pagination state as it is. No render
  changes the page size or \<open>totalPages\<close>. The hypotheses hold in every state the code
  produces: \<open>totalCoins\<close> is read from JSON or is a length, never NaN; the page size is
  50 or the value of a select option; the current page starts at 1 and is only set to
  1, moved by 1 or clamped. The total may be any other number, zero, negative and
  infinite included.
\<close>

theorem render_clamps_page:
  assumes "totalCoins (state (app_store w)) \<noteq> JNum NaN"
    and "is_finite (pageSize (pagination_of w))"
    and "currentPage (pagination_of w) \<noteq> NaN"
  shows "(has_tbody (page_dom w)
          \<and> renderTopCards b rnd (state (app_store w)) (page_dom w) = Inr d1
          \<and> filteredCoins (state (app_store w)) \<noteq> [] \<longrightarrow>
            js_le (Fin 1) (currentPage (pagination_of (snd (renderDashboard b rnd w))))
            \<and> js_le (currentPage (pagination_of (snd (renderDashboard b rnd w))))
                 (state_total_pages b (snd (renderDashboard b rnd w))))
       \<and> (filteredCoins (state (app_store w)) = [] \<longrightarrow>
            internal_pagination (snd (renderDashboard b rnd w)) = internal_pagination w)
       \<and> pageSize (pagination_of (snd (renderDashboard b rnd w))) = pageSize (pagination_of w)
       \<and> state_total_pages b (snd (renderDashboard b rnd w)) = state_total_pages b w
       \<and> (total_of (state (app_store w)) = Fin t
          \<and> num_or (pageSize (pagination_of w)) (Fin 50) = Fin k \<longrightarrow>
            state_total_pages b w = Fin (of_int (max 1 \<lceil>to_double b (t / k)\<rceil>)))"
proof -
  let ?s = "state (app_store w)"
  let ?p = "pagination_of w"
  let ?w' = "snd (renderDashboard b rnd w)"
  obtain k' where k: "k' \<noteq> 0" "num_or (pageSize ?p) (Fin 50) = Fin k'"
    using page_size_or_default [OF assms(2)] by blast
  have tp: "state_total_pages b w = total_pages b (total_of ?s) (Fin k')"
    using k by (simp add: state_total_pages_def)
  have ge: "js_le (Fin 1) (state_total_pages b w)"
    using total_pages_ge_one [OF total_of_not_NaN [OF assms(1)] k(1)] tp by simp
  have bounds: "js_le (Fin 1) (currentPage (pagination_of ?w'))
         \<and> js_le (currentPage (pagination_of ?w')) (state_total_pages b ?w')"
    if "has_tbody (page_dom w)" and "renderTopCards b rnd ?s (page_dom w) = Inr d1"
      and "filteredCoins ?s \<noteq> []"
  proof -
    have "pagination_of ?w' = clamped b ?s ?p"
      using render_reaches_clamp [OF that] by (rule pagination_of_some)
    then have "currentPage (pagination_of ?w') = clamp_page (currentPage ?p) (state_total_pages b w)"
      by (simp add: clamped_def state_total_pages_def)
    then show ?thesis
      using clamp_page_bounds [OF assms(3) ge] render_total_pages [of b rnd w] by simp
  qed
  show ?thesis
    using bounds render_empty_page [of w b rnd] render_pageSize [of b rnd w]
      render_total_pages [of b rnd w] state_total_pages_finite [of w t k b]
    by blast
qed

text \<open>What a page load leaves of the document, the pagination state and the state.\<close>

lemma loadCoinsPage_frame:
  "page_dom (loadCoinsPage b page psize w) = page_dom w"
  "internal_pagination (loadCoinsPage b page psize w) = internal_pagination w"
  by (simp_all add: loadCoinsPage_def Let_def split: prod.splits sum.splits)


lemma patched_page [simp]:
  "filteredCoins (object_assign s (page_patch cs tot)) = cs"
  "totalCoins (object_assign s (page_patch cs tot)) = tot"
  "currentQuery (object_assign s (page_patch cs tot)) = currentQuery s"
  by (simp_all add: object_assign_def page_patch_def empty_patch_def or_else_def)

lemma patched_top [simp]:
  "filteredCoins (object_assign s (empty_patch\<lparr>p_topCoins := Some cs\<rparr>)) = filteredCoins s"
  "totalCoins (object_assign s (empty_patch\<lparr>p_topCoins := Some cs\<rparr>)) = totalCoins s"
  "currentQuery (object_assign s (empty_patch\<lparr>p_topCoins := Some cs\<rparr>)) = currentQuery s"
  by (simp_all add: object_assign_def empty_patch_def or_else_def)

lemma load_failed_state:
  "filteredCoins (state (load_failed err st)) = []"
  "totalCoins (state (load_failed err st)) = JNum (Fin 0)"
  "currentQuery (state (load_failed err st)) = currentQuery (state st)"
  by (simp_all add: load_failed_def setState_state del: setState.simps)

lemma loadCoinsPage_failed:
  assumes "fetched b page psize w = Inl e"
  shows "filteredCoins (state (app_store (loadCoinsPage b page psize w))) = []"
    and "totalCoins (state (app_store (loadCoinsPage b page psize w))) = JNum (Fin 0)"
  using assms
  by (auto simp add: loadCoinsPage_def fetched_def Let_def load_failed_state
      split: prod.splits sum.splits)






lemma renderDashboard_network: "network (snd (renderDashboard b rnd w)) = network w"
  by (auto simp add: renderDashboard_steps split: sum.splits)



lemma on_next_go:
  "internal_pagination w = Some p \<Longrightarrow> js_lt (currentPage p) t
   \<Longrightarrow> on_next b rnd t w =
         renderDashboard b rnd
           (loadCoinsPage b (js_add (currentPage p) (Fin 1)) (pageSize p)
              (w\<lparr>internal_pagination := Some (p\<lparr>currentPage := js_add (currentPage p) (Fin 1)\<rparr>)\<rparr>))"
  by (simp add: on_next_def getPaginationState_def load_and_render_def)


lemma query_param_pagination [simp]: "query_param (w\<lparr>internal_pagination := x\<rparr>) = query_param w"
  by (simp add: query_param_def)



text \<open>The sample dashboard: its state, and what a render shows of it.\<close>

lemma paged_state:
  "totalCoins (state (app_store (paged_world cp))) = JNum (Fin 137)"
  "topCoins (state (app_store (paged_world cp))) = topCoins ranked_state"
  "internal_pagination (paged_world cp) = Some \<lparr>pageSize = Fin 50, currentPage = cp\<rparr>"
  "pagination_of (paged_world cp) = \<lparr>pageSize = Fin 50, currentPage = cp\<rparr>"
  "requests (network (paged_world cp)) = []"
  "query_param (paged_world cp) = None"
  "page_dom (paged_world cp) = blank_dom"
  "currentQuery (state (app_store (paged_world cp))) = []"
  by (simp_all add: paged_world_def fresh_world_def ranked_state_def initial_state_def
      offline_def pagination_of_def getPaginationState_def query_param_def)

lemma sample_pages:
  "total_pages sample_builtins (Fin 137) (Fin 50) = Fin 3"
  "total_pages sample_builtins (Fin 10) (Fin 50) = Fin 1"
  "total_pages sample_builtins (Fin 0) (Fin 50) = Fin 1"
  by (simp_all add: total_pages_def double_div_def js_max_def sample_builtins_def ceiling_eq_iff)

lemma paged_total_pages: "state_total_pages sample_builtins (paged_world cp) = Fin 3"
  by (simp add: state_total_pages_def paged_state total_of_def num_or_def sample_pages)

lemma paged_top_cards_built:
  "renderTopCards sample_builtins rnd (state (app_store (paged_world cp))) (page_dom (paged_world cp))
     = Inr (projr (renderTopCards sample_builtins rnd (state (app_store (paged_world cp)))
               (page_dom (paged_world cp))))"
  by (simp add: renderTopCards_cards paged_cards)

theorem render_clamps_page_witness:
  "totalCoins (state (app_store (paged_world (Fin 7)))) = JNum (Fin 137)
   \<and> pagination_of (paged_world (Fin 7)) = \<lparr>pageSize = Fin 50, currentPage = Fin 7\<rparr>
   \<and> has_tbody (page_dom (paged_world (Fin 7)))
   \<and> filteredCoins (state (app_store (paged_world (Fin 7)))) \<noteq> []
   \<and> state_total_pages sample_builtins (paged_world (Fin 7)) = Fin 3
   \<and> js_le (Fin 1)
        (currentPage (pagination_of (snd (renderDashboard sample_builtins steady (paged_world (Fin 7))))))
   \<and> js_le (currentPage (pagination_of (snd (renderDashboard sample_builtins steady (paged_world (Fin 7))))))
        (Fin 3)
   \<and> filteredCoins (state (app_store (fresh_world offline))) = []
   \<and> internal_pagination (snd (renderDashboard sample_builtins steady (fresh_world offline))) = None"
proof -
  let ?w = "paged_world (Fin 7)"
  let ?w' = "snd (renderDashboard sample_builtins steady ?w)"
  let ?v = "fresh_world offline"
  have hyps: "totalCoins (state (app_store ?w)) \<noteq> JNum NaN"
    "is_finite (pageSize (pagination_of ?w))" "currentPage (pagination_of ?w) \<noteq> NaN"
    by (simp_all add: paged_state)
  have fresh: "totalCoins (state (app_store ?v)) \<noteq> JNum NaN"
    "is_finite (pageSize (pagination_of ?v))" "currentPage (pagination_of ?v) \<noteq> NaN"
    "filteredCoins (state (app_store ?v)) = []" "internal_pagination ?v = None"
    by (simp_all add: fresh_world_def initial_state_def pagination_of_def getPaginationState_def
        Let_def)
  note t = render_clamps_page [OF hyps, of sample_builtins steady
      "projr (renderTopCards sample_builtins steady (state (app_store ?w)) (page_dom ?w))"]
  have "js_le (Fin 1) (currentPage (pagination_of ?w'))
      \<and> js_le (currentPage (pagination_of ?w')) (state_total_pages sample_builtins ?w')"
    using t paged_flags [of "Fin 7"] paged_top_cards_built [of steady "Fin 7"] by blast
  moreover have "state_total_pages sample_builtins ?w' = Fin 3"
    using t paged_total_pages [of "Fin 7"] by simp
  moreover have "internal_pagination (snd (renderDashboard sample_builtins steady ?v)) = None"
    using render_clamps_page [OF fresh(1-3), of sample_builtins steady] fresh(4,5) by simp
  ultimately show ?thesis
    using paged_state [of "Fin 7"] paged_flags [of "Fin 7"] paged_total_pages [of "Fin 7"] fresh(4)
    by simp
qed

lemma paged_clamped:
  "clamped sample_builtins (state (app_store (paged_world cp))) (pagination_of (paged_world cp))
     = \<lparr>pageSize = Fin 50, currentPage = clamp_page cp (Fin 3)\<rparr>"
  by (simp add: clamped_def paged_state total_of_def num_or_def sample_pages)

lemma query_param_render: "query_param (snd (renderDashboard b rnd w)) = query_param w"
  by (simp add: query_param_def renderDashboard_store)

lemma rendered_facts:
  "fst (renderDashboard sample_builtins steady (paged_world cp)) = Inr ()"
  "internal_pagination (rendered cp) = Some \<lparr>pageSize = Fin 50, currentPage = clamp_page cp (Fin 3)\<rparr>"
  "pagination_of (rendered cp) = \<lparr>pageSize = Fin 50, currentPage = clamp_page cp (Fin 3)\<rparr>"
  "state_total_pages sample_builtins (rendered cp) = Fin 3"
  "pag_container (page_dom (rendered cp)) \<noteq> None"
  "requests (network (rendered cp)) = []"
  "query_param (rendered cp) = None"
  "app_store (rendered cp) = app_store (paged_world cp)"
  "has_tbody (page_dom (rendered cp))"
  "has_top_cards (page_dom (rendered cp))"
  "next_handlers (page_dom (rendered cp)) = [NextPage (Fin 3)]"
  "next_clickable (page_dom (rendered cp)) = (\<not> js_ge (clamp_page cp (Fin 3)) (Fin 3))"
proof -
  obtain rows where rows: "rows_for sample_builtins (state (app_store (paged_world cp)))
      (clamped sample_builtins (state (app_store (paged_world cp))) (pagination_of (paged_world cp)))
      = Inr rows"
    using paged_rows by blast
  note rd = render_done [OF paged_flags(1) [of cp] paged_cards [of steady cp]
      paged_flags(3) [of cp] rows]
  show "fst (renderDashboard sample_builtins steady (paged_world cp)) = Inr ()"
    by (rule paged_render_ok)
  show ip: "internal_pagination (rendered cp) =
      Some \<lparr>pageSize = Fin 50, currentPage = clamp_page cp (Fin 3)\<rparr>"
    by (simp add: rendered_def rd paged_clamped)
  show "pagination_of (rendered cp) = \<lparr>pageSize = Fin 50, currentPage = clamp_page cp (Fin 3)\<rparr>"
    using ip by (rule pagination_of_some)
  show "state_total_pages sample_builtins (rendered cp) = Fin 3"
    by (simp add: rendered_def render_total_pages paged_total_pages)
  show "pag_container (page_dom (rendered cp)) \<noteq> None"
    by (simp add: rendered_def rd set_pagination_container show_no_results_flags paged_state
        blank_dom_def)
  show "requests (network (rendered cp)) = []"
    by (simp add: rendered_def renderDashboard_network paged_state)
  show "query_param (rendered cp) = None"
    by (simp add: rendered_def query_param_render paged_state)
  show "app_store (rendered cp) = app_store (paged_world cp)"
    by (simp add: rendered_def renderDashboard_store)
  show "has_tbody (page_dom (rendered cp))" and "has_top_cards (page_dom (rendered cp))"
    by (simp_all add: rendered_def rd set_pagination_flags show_no_results_flags paged_state
        blank_dom_def)
  show "next_handlers (page_dom (rendered cp)) = [NextPage (Fin 3)]"
    unfolding rendered_def rd snd_conv paged_clamped
    by (simp add: next_handlers_def set_pagination_container show_no_results_flags
        bar_for_def build_bar_def Let_def paged_state blank_dom_def total_of_def num_or_def
        sample_pages)
  show "next_clickable (page_dom (rendered cp)) = (\<not> js_ge (clamp_page cp (Fin 3)) (Fin 3))"
    unfolding rendered_def rd snd_conv paged_clamped
    by (simp add: next_clickable_def set_pagination_container show_no_results_flags
        bar_for_def build_bar_def Let_def paged_state blank_dom_def total_of_def num_or_def
        sample_pages)
qed

lemma rendered_network: "network (rendered cp) = offline"
  by (simp add: rendered_def renderDashboard_network paged_world_def fresh_world_def)

lemma failed_next_load:
  defines "wl \<equiv> loadCoinsPage sample_builtins (Fin 3) (Fin 50)
      ((rendered (Fin 2))\<lparr>internal_pagination := Some \<lparr>pageSize = Fin 50, currentPage = Fin 3\<rparr>\<rparr>)"
  shows "on_next sample_builtins steady (Fin 3) (rendered (Fin 2))
           = renderDashboard sample_builtins steady wl"
    and "filteredCoins (state (app_store wl)) = []"
    and "totalCoins (state (app_store wl)) = JNum (Fin 0)"
    and "topCoins (state (app_store wl)) = topCoins ranked_state"
    and "has_tbody (page_dom wl)" and "has_top_cards (page_dom wl)"
    and "internal_pagination wl = Some \<lparr>pageSize = Fin 50, currentPage = Fin 3\<rparr>"
proof -
  let ?w0 = "(rendered (Fin 2))\<lparr>internal_pagination :=
      Some \<lparr>pageSize = Fin 50, currentPage = Fin 3\<rparr>\<rparr>"
  have cl: "clamp_page (Fin 2) (Fin 3) = Fin 2"
    by (simp add: clamp_page_def js_min_def js_max_def)
  have ip: "internal_pagination (rendered (Fin 2)) = Some \<lparr>pageSize = Fin 50, currentPage = Fin 2\<rparr>"
    by (simp add: rendered_facts cl)
  have g: "js_lt (currentPage \<lparr>pageSize = Fin 50, currentPage = Fin 2\<rparr>) (Fin 3)"
    by simp
  have f: "fetched sample_builtins (Fin 3) (Fin 50) ?w0 = Inl NetworkError"
    by (simp add: fetched_def rendered_network offline_def fetchSymbolsPage_def getJson_def
        fetch_def)
  show "on_next sample_builtins steady (Fin 3) (rendered (Fin 2))
           = renderDashboard sample_builtins steady wl"
    using on_next_go [OF ip g, of sample_builtins steady] by (simp add: wl_def)
  show "filteredCoins (state (app_store wl)) = []"
    and "totalCoins (state (app_store wl)) = JNum (Fin 0)"
    unfolding wl_def by (rule loadCoinsPage_failed [OF f])+
  show "topCoins (state (app_store wl)) = topCoins ranked_state"
    unfolding wl_def
    by (simp add: loadCoinsPage_topCoins rendered_facts paged_state ranked_state_def)
  show "has_tbody (page_dom wl)" and "has_top_cards (page_dom wl)"
    and "internal_pagination wl = Some \<lparr>pageSize = Fin 50, currentPage = Fin 3\<rparr>"
    unfolding wl_def by (simp_all add: loadCoinsPage_frame rendered_facts)
qed

text \<open>
  The claim as stated fails. On page 2 of 3, after a render, Next is clicked while the
  network is down: the handler sets the current page to 3, the failed load leaves an
  empty page with a total of 0, and the render, which completes, returns before its
  clamping step. The current page is 3 and \<open>totalPages\<close> is 1, and a further render
  changes nothing.
\<close>

theorem empty_page_keeps_page_out_of_range:
  "next_handlers (page_dom (rendered (Fin 2))) = [NextPage (Fin 3)]
   \<and> next_clickable (page_dom (rendered (Fin 2)))
   \<and> currentPage (pagination_of (rendered (Fin 2))) = Fin 2
   \<and> state_total_pages sample_builtins (rendered (Fin 2)) = Fin 3
   \<and> fst (on_next sample_builtins steady (Fin 3) (rendered (Fin 2))) = Inr ()
   \<and> filteredCoins (state (app_store after_failed_next)) = []
   \<and> totalCoins (state (app_store after_failed_next)) = JNum (Fin 0)
   \<and> currentPage (pagination_of after_failed_next) = Fin 3
   \<and> state_total_pages sample_builtins after_failed_next = Fin 1
   \<and> \<not> js_le (currentPage (pagination_of after_failed_next))
          (state_total_pages sample_builtins after_failed_next)
   \<and> renderDashboard sample_builtins steady after_failed_next = (Inr (), after_failed_next)"
proof -
  define wl where "wl = loadCoinsPage sample_builtins (Fin 3) (Fin 50)
      ((rendered (Fin 2))\<lparr>internal_pagination := Some \<lparr>pageSize = Fin 50, currentPage = Fin 3\<rparr>\<rparr>)"
  note l = failed_next_load [folded wl_def]
  have cl: "clamp_page (Fin 2) (Fin 3) = Fin 2"
    by (simp add: clamp_page_def js_min_def js_max_def)
  have cards: "cards_after sample_builtins steady (state (app_store wl)) (page_dom wl) =
      Inr [sample_card (steady 0) ''BTC'', sample_card (steady (Suc 0)) ''ETH'',
           sample_card (steady (Suc (Suc 0))) ''XYZ'']"
    by (rule cards_ranked) (simp_all add: l)
  note r = render_empty [OF l(5) cards l(2)]
  have after: "after_failed_next = snd (renderDashboard sample_builtins steady wl)"
    by (simp add: after_failed_next_def l(1))
  have ok: "fst (on_next sample_builtins steady (Fin 3) (rendered (Fin 2))) = Inr ()"
    by (simp add: l(1) r)
  have st: "app_store after_failed_next = app_store wl"
    by (simp add: after renderDashboard_store)
  have pg: "pagination_of after_failed_next = \<lparr>pageSize = Fin 50, currentPage = Fin 3\<rparr>"
    by (rule pagination_of_some) (simp add: after r l(7))
  have tp: "state_total_pages sample_builtins after_failed_next = Fin 1"
    by (simp add: state_total_pages_def st pg l(3) total_of_def num_or_def sample_pages)
  have again: "renderDashboard sample_builtins steady after_failed_next = (Inr (), after_failed_next)"
    using render_absorbs [of sample_builtins steady steady wl]
    by (simp add: after [symmetric] r) (simp add: after r)
  show ?thesis
    using ok tp pg again
    by (simp add: rendered_facts cl st l(2,3) js_le_def js_ge_def)
qed









end
